theory Spec2Isabelle
  imports Complex_Main
begin

section \<open>Numbers, errors and the scalar utilities (MathUtils.js)\<close>

text \<open>
  JavaScript numbers are modelled as the real numbers: rounding, overflow to an infinity,
  the sign of a zero and NaN are outside the model. Where a method would leave the real
  numbers (a division by zero, the root of a negative number, \<open>Math.acos\<close> outside
  \<open>[-1, 1]\<close>, \<open>undefined\<close> read from an array) the model ends in
  \<open>NotANumber\<close>; everywhere else \<open>Math.sqrt\<close> and \<open>Math.acos\<close> are
  \<^const>\<open>sqrt\<close> and \<^const>\<open>arccos\<close>.

  The source throws plain \<open>Error\<close> objects that differ in their message only; the
  constructors below name them after the condition that raises them.
\<close>

datatype error =
    IndexOutOfRange int    \<comment> \<open>\<open>Error('VectorN.setComponent: index i out of range')\<close>\<close>
  | UnsupportedEncoding    \<comment> \<open>\<open>Error('Invalid type')\<close> of normalize and denormalize\<close>
  | TypeError              \<comment> \<open>a method call or a private-member access on \<open>undefined\<close>\<close>
  | NotANumber             \<comment> \<open>the source goes on with \<open>undefined\<close> in a component; the model stops\<close>

text \<open>\<open>Math.round\<close> rounds to the nearest integer, a half towards plus infinity.\<close>

definition Math_round :: "real \<Rightarrow> real" where
  "Math_round v = of_int \<lfloor>v + 1 / 2\<rfloor>"

definition Math_floor :: "real \<Rightarrow> real" where
  "Math_floor v = of_int \<lfloor>v\<rfloor>"

definition Math_ceil :: "real \<Rightarrow> real" where
  "Math_ceil v = of_int \<lceil>v\<rceil>"

definition Math_trunc :: "real \<Rightarrow> real" where
  "Math_trunc v = (if v < 0 then of_int \<lceil>v\<rceil> else of_int \<lfloor>v\<rfloor>)"

text \<open>\<open>clamp(v, min, max)\<close> is \<open>Math.max(min, Math.min(max, v))\<close>.\<close>

definition MathUtils_clamp :: "real \<Rightarrow> real \<Rightarrow> real \<Rightarrow> real" where
  "MathUtils_clamp v lo hi = max lo (min hi v)"

text \<open>
  The \<open>switch (array.constructor)\<close> of normalize and denormalize: the seven typed
  arrays it names, and \<open>OtherArray\<close> for every other constructor (the \<open>default\<close>
  branch).
\<close>

datatype typed_array =
    Float32Array | Uint32Array | Uint16Array | Uint8Array
  | Int32Array | Int16Array | Int8Array | OtherArray

fun MathUtils_normalize :: "real \<Rightarrow> typed_array \<Rightarrow> error + real" where
  "MathUtils_normalize v Float32Array = Inr v"
| "MathUtils_normalize v Uint32Array = Inr (Math_round (v * 4294967295))"
| "MathUtils_normalize v Uint16Array = Inr (Math_round (v * 65535))"
| "MathUtils_normalize v Uint8Array = Inr (Math_round (v * 255))"
| "MathUtils_normalize v Int32Array = Inr (Math_round (v * 2147483647))"
| "MathUtils_normalize v Int16Array = Inr (Math_round (v * 32767))"
| "MathUtils_normalize v Int8Array = Inr (Math_round (v * 127))"
| "MathUtils_normalize v OtherArray = Inl UnsupportedEncoding"

fun MathUtils_denormalize :: "real \<Rightarrow> typed_array \<Rightarrow> error + real" where
  "MathUtils_denormalize v Float32Array = Inr v"
| "MathUtils_denormalize v Uint32Array = Inr (v / 4294967295)"
| "MathUtils_denormalize v Uint16Array = Inr (v / 65535)"
| "MathUtils_denormalize v Uint8Array = Inr (v / 255)"
| "MathUtils_denormalize v Int32Array = Inr (max (v / 2147483647) (- 1))"
| "MathUtils_denormalize v Int16Array = Inr (max (v / 32767) (- 1))"
| "MathUtils_denormalize v Int8Array = Inr (max (v / 127) (- 1))"
| "MathUtils_denormalize v OtherArray = Inl UnsupportedEncoding"

section \<open>Objects, observers and the heap\<close>

text \<open>
  A vector is an object on a heap: the methods take the address of their receiver
  (\<open>this\<close>) and return \<open>Ref\<close> of an address where the source returns an object, and
  \<open>Undefined\<close> where it returns nothing. The state is the heap together with the
  record of the observer calls made so far, oldest first: \<open>(f, a)\<close> stands for the
  call \<open>f(o)\<close>, with \<open>o\<close> the object at address \<open>a\<close> as the only argument. An
  observer is a function value and is named by a number; what it does when called is
  outside the model, which assumes that it does not write to the vectors.

  A method ends in \<open>Inr (v, st)\<close> when it returns \<open>v\<close> in state \<open>st\<close>, and in
  \<open>Inl e\<close> when it throws. \<open>Inl NotANumber\<close> is not a throw: the source goes on
  there with a value that is not a real number (\<open>undefined\<close> read from an array,
  a division by zero, the root of a negative number, \<open>Math.acos\<close> outside
  \<open>[-1, 1]\<close>), and the model says nothing about what follows.
\<close>

type_synonym addr = nat

type_synonym observer = nat

datatype jsval = Ref addr | Undefined

record 'v world =
  heap :: "addr \<Rightarrow> 'v"
  calls :: "(observer \<times> addr) list"

type_synonym 'v result = "error + jsval \<times> 'v world"

text \<open>Assignments to the fields of the object at an address.\<close>

definition upd :: "addr \<Rightarrow> ('v \<Rightarrow> 'v) \<Rightarrow> 'v world \<Rightarrow> 'v world" where
  "upd a f st = st\<lparr>heap := (heap st)(a := f (heap st a))\<rparr>"

text \<open>
  \<open>e.m(...)\<close> where \<open>e\<close> is itself a call: the method runs on the object that
  \<open>e\<close> returned, and a call on \<open>undefined\<close> is a TypeError.
\<close>

definition call_on :: "'v result \<Rightarrow> (addr \<Rightarrow> 'v world \<Rightarrow> 'v result) \<Rightarrow> 'v result" where
  "call_on r m =
     (case r of
        Inl e \<Rightarrow> Inl e
      | Inr (Ref b, st) \<Rightarrow> m b st
      | Inr (Undefined, st) \<Rightarrow> Inl TypeError)"

text \<open>The same for a method that returns a number, such as \<open>length()\<close>.\<close>

definition query_on ::
  "'v result \<Rightarrow> (addr \<Rightarrow> 'v world \<Rightarrow> real \<times> 'v world) \<Rightarrow> error + real \<times> 'v world" where
  "query_on r q =
     (case r of
        Inl e \<Rightarrow> Inl e
      | Inr (Ref b, st) \<Rightarrow> Inr (q b st)
      | Inr (Undefined, st) \<Rightarrow> Inl TypeError)"

text \<open>
  Arguments are duck-typed in the source: a method reads the fields \<open>x\<close>, \<open>y\<close>,
  \<open>z\<close>, \<open>w\<close> of whatever object it is given. The model passes an argument as the
  record of the fields read, of any record type that has them. A vector method never
  reads a field of a vector argument after it has written the same field of \<open>this\<close>,
  so a vector argument that is \<open>this\<close> itself is covered by passing the receiver's
  fields as they are at the call. (\<open>setAxisAngleFromQuaternion\<close> reads \<open>q.w\<close>
  after it has written \<open>this.w\<close>; its argument is a quaternion, an object other
  than the vector.)
\<close>

record xy =
  x :: real
  y :: real

record xyz = xy +
  z :: real

record xyzw = xyz +
  w :: real

text \<open>
  A JavaScript array of numbers is a finite map from indices to numbers; an index with
  no entry reads as \<open>undefined\<close>. \<open>[]\<close> is the empty map, and a write past the
  end extends the array. A matrix exposes its \<open>elements\<close>, a camera its four
  matrices, a buffer attribute its accessors.
\<close>

type_synonym js_array = "nat \<rightharpoonup> real"

definition defined_at :: "js_array \<Rightarrow> nat list \<Rightarrow> bool" where
  "defined_at e ixs = list_all (\<lambda>i. e i \<noteq> None) ixs"

text \<open>\<open>e[i]\<close>, read where \<open>defined_at\<close> has been checked.\<close>

definition num_at :: "js_array \<Rightarrow> nat \<Rightarrow> real" where
  "num_at e i = the (e i)"

record matrix =
  elements :: js_array

record camera =
  matrixWorldInverse :: matrix
  projectionMatrix :: matrix
  projectionMatrixInverse :: matrix
  matrixWorld :: matrix

record bufferAttribute =
  getX :: "nat \<Rightarrow> real"
  getY :: "nat \<Rightarrow> real"
  getZ :: "nat \<Rightarrow> real"
  getW :: "nat \<Rightarrow> real"

record spherical =
  radius :: real
  phi :: real
  theta :: real

record cylindrical =
  cyl_radius :: real
  cyl_theta :: real
  cyl_y :: real

text \<open>The squared length of the fields read from an object.\<close>

definition xy_lengthSq :: "'m xy_scheme \<Rightarrow> real" where
  "xy_lengthSq v = x v * x v + y v * y v"

definition xyz_lengthSq :: "'m xyz_scheme \<Rightarrow> real" where
  "xyz_lengthSq v = x v * x v + y v * y v + z v * z v"

definition xyzw_lengthSq :: "'m xyzw_scheme \<Rightarrow> real" where
  "xyzw_lengthSq v = x v * x v + y v * y v + z v * z v + w v * w v"

section \<open>Vector3 (Vector3.js)\<close>

text \<open>
  The files close the class body after \<open>#markDirty\<close>; the methods that follow are
  read as methods of the class, as their use of \<open>this\<close> and of the private
  \<open>#markDirty\<close> shows. \<open>__dsrt_id\<close>, \<open>__dsrt_origin\<close> and the type tag are
  written by the constructor only and read by nothing here; the address stands for the
  identity of the object.
\<close>

record vector3 = xyz +
  isDirty :: bool
  onChange :: "observer option"

text \<open>
  The constructor \<open>constructor(x = 0, y = 0, z = 0)\<close> sets \<open>isDirty\<close> to
  \<open>false\<close> and \<open>onChange\<close> to \<open>null\<close>.
\<close>

definition Vector3_constructor :: "real \<Rightarrow> real \<Rightarrow> real \<Rightarrow> vector3" where
  "Vector3_constructor vx vy vz =
     \<lparr>x = vx, y = vy, z = vz, vector3.isDirty = False, vector3.onChange = None\<rparr>"

text \<open>
  \<open>#markDirty()\<close>: \<open>this.isDirty = true; if (typeof this.onChange === 'function')
  this.onChange(this);\<close>. \<open>onChange\<close> is \<open>Some f\<close> when the slot holds the
  function \<open>f\<close>, and \<open>None\<close> when it holds \<open>null\<close> or anything else.
\<close>

definition Vector3_markDirty :: "addr \<Rightarrow> vector3 world \<Rightarrow> vector3 world" where
  "Vector3_markDirty a st =
     (let st1 = upd a (\<lambda>t. t\<lparr>vector3.isDirty := True\<rparr>) st
      in case vector3.onChange (heap st1 a) of
           Some f \<Rightarrow> st1\<lparr>calls := calls st1 @ [(f, a)]\<rparr>
         | None \<Rightarrow> st1)"

subsection \<open>Component accessors\<close>

text \<open>\<open>set(x, y, z = this.z)\<close>: the third argument is optional.\<close>

definition Vector3_set :: "addr \<Rightarrow> real \<Rightarrow> real \<Rightarrow> real option \<Rightarrow> vector3 world \<Rightarrow> vector3 result" where
  "Vector3_set a nx ny nz st =
     (let nz' = (case nz of Some c \<Rightarrow> c | None \<Rightarrow> z (heap st a))
      in Inr (Ref a, Vector3_markDirty a (upd a (\<lambda>t. t\<lparr>x := nx, y := ny, z := nz'\<rparr>) st)))"

definition Vector3_setScalar :: "addr \<Rightarrow> real \<Rightarrow> vector3 world \<Rightarrow> vector3 result" where
  "Vector3_setScalar a scalar st =
     Inr (Ref a, Vector3_markDirty a (upd a (\<lambda>t. t\<lparr>x := scalar, y := scalar, z := scalar\<rparr>) st))"

definition Vector3_setX :: "addr \<Rightarrow> real \<Rightarrow> vector3 world \<Rightarrow> vector3 result" where
  "Vector3_setX a nx st = Inr (Ref a, Vector3_markDirty a (upd a (\<lambda>t. t\<lparr>x := nx\<rparr>) st))"

definition Vector3_setY :: "addr \<Rightarrow> real \<Rightarrow> vector3 world \<Rightarrow> vector3 result" where
  "Vector3_setY a ny st = Inr (Ref a, Vector3_markDirty a (upd a (\<lambda>t. t\<lparr>y := ny\<rparr>) st))"

definition Vector3_setZ :: "addr \<Rightarrow> real \<Rightarrow> vector3 world \<Rightarrow> vector3 result" where
  "Vector3_setZ a nz st = Inr (Ref a, Vector3_markDirty a (upd a (\<lambda>t. t\<lparr>z := nz\<rparr>) st))"

text \<open>The \<open>default\<close> branch of the switch throws before \<open>#markDirty\<close> is reached.\<close>

definition Vector3_setComponent :: "addr \<Rightarrow> int \<Rightarrow> real \<Rightarrow> vector3 world \<Rightarrow> vector3 result" where
  "Vector3_setComponent a i v st =
     (if i = 0 then Inr (Ref a, Vector3_markDirty a (upd a (\<lambda>t. t\<lparr>x := v\<rparr>) st))
      else if i = 1 then Inr (Ref a, Vector3_markDirty a (upd a (\<lambda>t. t\<lparr>y := v\<rparr>) st))
      else if i = 2 then Inr (Ref a, Vector3_markDirty a (upd a (\<lambda>t. t\<lparr>z := v\<rparr>) st))
      else Inl (IndexOutOfRange i))"

definition Vector3_getComponent :: "addr \<Rightarrow> int \<Rightarrow> vector3 world \<Rightarrow> error + real \<times> vector3 world" where
  "Vector3_getComponent a i st =
     (if i = 0 then Inr (x (heap st a), st)
      else if i = 1 then Inr (y (heap st a), st)
      else if i = 2 then Inr (z (heap st a), st)
      else Inl (IndexOutOfRange i))"

definition Vector3_copy :: "addr \<Rightarrow> 'm xyz_scheme \<Rightarrow> vector3 world \<Rightarrow> vector3 result" where
  "Vector3_copy a v st =
     Inr (Ref a, Vector3_markDirty a (upd a (\<lambda>t. t\<lparr>x := x v, y := y v, z := z v\<rparr>) st))"

subsection \<open>Arithmetic\<close>

definition Vector3_add :: "addr \<Rightarrow> 'm xyz_scheme \<Rightarrow> vector3 world \<Rightarrow> vector3 result" where
  "Vector3_add a v st =
     Inr (Ref a, Vector3_markDirty a
       (upd a (\<lambda>t. t\<lparr>x := x t + x v, y := y t + y v, z := z t + z v\<rparr>) st))"

definition Vector3_addScalar :: "addr \<Rightarrow> real \<Rightarrow> vector3 world \<Rightarrow> vector3 result" where
  "Vector3_addScalar a s st =
     Inr (Ref a, Vector3_markDirty a
       (upd a (\<lambda>t. t\<lparr>x := x t + s, y := y t + s, z := z t + s\<rparr>) st))"

definition Vector3_addVectors ::
  "addr \<Rightarrow> 'm xyz_scheme \<Rightarrow> 'n xyz_scheme \<Rightarrow> vector3 world \<Rightarrow> vector3 result" where
  "Vector3_addVectors a u v st =
     Inr (Ref a, Vector3_markDirty a
       (upd a (\<lambda>t. t\<lparr>x := x u + x v, y := y u + y v, z := z u + z v\<rparr>) st))"

definition Vector3_addScaledVector ::
  "addr \<Rightarrow> 'm xyz_scheme \<Rightarrow> real \<Rightarrow> vector3 world \<Rightarrow> vector3 result" where
  "Vector3_addScaledVector a v s st =
     Inr (Ref a, Vector3_markDirty a
       (upd a (\<lambda>t. t\<lparr>x := x t + x v * s, y := y t + y v * s, z := z t + z v * s\<rparr>) st))"

definition Vector3_sub :: "addr \<Rightarrow> 'm xyz_scheme \<Rightarrow> vector3 world \<Rightarrow> vector3 result" where
  "Vector3_sub a v st =
     Inr (Ref a, Vector3_markDirty a
       (upd a (\<lambda>t. t\<lparr>x := x t - x v, y := y t - y v, z := z t - z v\<rparr>) st))"

definition Vector3_subScalar :: "addr \<Rightarrow> real \<Rightarrow> vector3 world \<Rightarrow> vector3 result" where
  "Vector3_subScalar a s st =
     Inr (Ref a, Vector3_markDirty a
       (upd a (\<lambda>t. t\<lparr>x := x t - s, y := y t - s, z := z t - s\<rparr>) st))"

definition Vector3_subVectors ::
  "addr \<Rightarrow> 'm xyz_scheme \<Rightarrow> 'n xyz_scheme \<Rightarrow> vector3 world \<Rightarrow> vector3 result" where
  "Vector3_subVectors a u v st =
     Inr (Ref a, Vector3_markDirty a
       (upd a (\<lambda>t. t\<lparr>x := x u - x v, y := y u - y v, z := z u - z v\<rparr>) st))"

definition Vector3_multiply :: "addr \<Rightarrow> 'm xyz_scheme \<Rightarrow> vector3 world \<Rightarrow> vector3 result" where
  "Vector3_multiply a v st =
     Inr (Ref a, Vector3_markDirty a
       (upd a (\<lambda>t. t\<lparr>x := x t * x v, y := y t * y v, z := z t * z v\<rparr>) st))"

definition Vector3_multiplyScalar :: "addr \<Rightarrow> real \<Rightarrow> vector3 world \<Rightarrow> vector3 result" where
  "Vector3_multiplyScalar a scalar st =
     Inr (Ref a, Vector3_markDirty a
       (upd a (\<lambda>t. t\<lparr>x := x t * scalar, y := y t * scalar, z := z t * scalar\<rparr>) st))"

definition Vector3_multiplyVectors ::
  "addr \<Rightarrow> 'm xyz_scheme \<Rightarrow> 'n xyz_scheme \<Rightarrow> vector3 world \<Rightarrow> vector3 result" where
  "Vector3_multiplyVectors a u v st =
     Inr (Ref a, Vector3_markDirty a
       (upd a (\<lambda>t. t\<lparr>x := x u * x v, y := y u * y v, z := z u * z v\<rparr>) st))"

definition Vector3_divide :: "addr \<Rightarrow> 'm xyz_scheme \<Rightarrow> vector3 world \<Rightarrow> vector3 result" where
  "Vector3_divide a v st =
     (if x v = 0 \<or> y v = 0 \<or> z v = 0 then Inl NotANumber
      else Inr (Ref a, Vector3_markDirty a
        (upd a (\<lambda>t. t\<lparr>x := x t / x v, y := y t / y v, z := z t / z v\<rparr>) st)))"

text \<open>\<open>divideScalar(scalar)\<close> is \<open>this.multiplyScalar(1 / scalar)\<close>.\<close>

definition Vector3_divideScalar :: "addr \<Rightarrow> real \<Rightarrow> vector3 world \<Rightarrow> vector3 result" where
  "Vector3_divideScalar a scalar st =
     (if scalar = 0 then Inl NotANumber else Vector3_multiplyScalar a (1 / scalar) st)"

subsection \<open>Length\<close>

definition Vector3_lengthSq :: "addr \<Rightarrow> vector3 world \<Rightarrow> real \<times> vector3 world" where
  "Vector3_lengthSq a st = (xyz_lengthSq (heap st a), st)"

definition Vector3_length :: "addr \<Rightarrow> vector3 world \<Rightarrow> real \<times> vector3 world" where
  "Vector3_length a st = (case Vector3_lengthSq a st of (l, st1) \<Rightarrow> (sqrt l, st1))"

definition Vector3_manhattanLength :: "addr \<Rightarrow> vector3 world \<Rightarrow> real \<times> vector3 world" where
  "Vector3_manhattanLength a st =
     (\<bar>x (heap st a)\<bar> + \<bar>y (heap st a)\<bar> + \<bar>z (heap st a)\<bar>, st)"

text \<open>
  \<open>normalize()\<close> is \<open>this.divideScalar(this.length() || 1)\<close>: a length of zero is
  falsy and is replaced by 1.
\<close>

definition Vector3_normalize :: "addr \<Rightarrow> vector3 world \<Rightarrow> vector3 result" where
  "Vector3_normalize a st =
     (case Vector3_length a st of
        (l, st1) \<Rightarrow> Vector3_divideScalar a (if l = 0 then 1 else l) st1)"

definition Vector3_setLength :: "addr \<Rightarrow> real \<Rightarrow> vector3 world \<Rightarrow> vector3 result" where
  "Vector3_setLength a len st =
     call_on (Vector3_normalize a st) (\<lambda>b. Vector3_multiplyScalar b len)"

subsection \<open>Transformations\<close>

definition Vector3_applyQuaternion :: "addr \<Rightarrow> 'm xyzw_scheme \<Rightarrow> vector3 world \<Rightarrow> vector3 result" where
  "Vector3_applyQuaternion a q st =
     (let vx = x (heap st a); vy = y (heap st a); vz = z (heap st a);
          qx = x q; qy = y q; qz = z q; qw = w q;
          tx = 2 * (qy * vz - qz * vy);
          ty = 2 * (qz * vx - qx * vz);
          tz = 2 * (qx * vy - qy * vx)
      in Inr (Ref a, Vector3_markDirty a
           (upd a (\<lambda>t. t\<lparr>x := vx + qw * tx + qy * tz - qz * ty,
                          y := vy + qw * ty + qz * tx - qx * tz,
                          z := vz + qw * tz + qx * ty - qy * tx\<rparr>) st)))"

text \<open>
  \<open>applyEuler\<close> and \<open>applyAxisAngle\<close> rotate by the quaternion that the module's
  \<open>_quaternion\<close> returns from \<open>setFromEuler\<close> and \<open>setFromAxisAngle\<close>. The
  Quaternion class is not among the files: the two functions are parameters.
\<close>

definition Vector3_applyEuler ::
  "('e \<Rightarrow> xyzw) \<Rightarrow> addr \<Rightarrow> 'e \<Rightarrow> vector3 world \<Rightarrow> vector3 result" where
  "Vector3_applyEuler setFromEuler a euler st =
     Vector3_applyQuaternion a (setFromEuler euler) st"

definition Vector3_applyAxisAngle ::
  "('m xyz_scheme \<Rightarrow> real \<Rightarrow> xyzw) \<Rightarrow> addr \<Rightarrow> 'm xyz_scheme \<Rightarrow> real \<Rightarrow> vector3 world
     \<Rightarrow> vector3 result" where
  "Vector3_applyAxisAngle setFromAxisAngle a axis angle st =
     Vector3_applyQuaternion a (setFromAxisAngle axis angle) st"

definition Vector3_applyMatrix3 :: "addr \<Rightarrow> matrix \<Rightarrow> vector3 world \<Rightarrow> vector3 result" where
  "Vector3_applyMatrix3 a m st =
     (let vx = x (heap st a); vy = y (heap st a); vz = z (heap st a);
          e = elements m
      in if \<not> defined_at e [0, 3, 6, 1, 4, 7, 2, 5, 8] then Inl NotANumber
         else Inr (Ref a, Vector3_markDirty a
           (upd a (\<lambda>t. t\<lparr>x := num_at e 0 * vx + num_at e 3 * vy + num_at e 6 * vz,
                          y := num_at e 1 * vx + num_at e 4 * vy + num_at e 7 * vz,
                          z := num_at e 2 * vx + num_at e 5 * vy + num_at e 8 * vz\<rparr>) st)))"

definition Vector3_applyNormalMatrix :: "addr \<Rightarrow> matrix \<Rightarrow> vector3 world \<Rightarrow> vector3 result" where
  "Vector3_applyNormalMatrix a m st =
     call_on (Vector3_applyMatrix3 a m st) (\<lambda>b. Vector3_normalize b)"

text \<open>The reciprocal \<open>1 / (e[3] * x + e[7] * y + e[11] * z + e[15])\<close> is the perspective divide.\<close>

definition Vector3_applyMatrix4 :: "addr \<Rightarrow> matrix \<Rightarrow> vector3 world \<Rightarrow> vector3 result" where
  "Vector3_applyMatrix4 a m st =
     (let vx = x (heap st a); vy = y (heap st a); vz = z (heap st a);
          e = elements m
      in if \<not> defined_at e [3, 7, 11, 15, 0, 4, 8, 12, 1, 5, 9, 13, 2, 6, 10, 14]
         then Inl NotANumber
         else if num_at e 3 * vx + num_at e 7 * vy + num_at e 11 * vz + num_at e 15 = 0 then Inl NotANumber
         else
           let pw = 1 / (num_at e 3 * vx + num_at e 7 * vy + num_at e 11 * vz + num_at e 15)
           in Inr (Ref a, Vector3_markDirty a
                (upd a (\<lambda>t. t\<lparr>x := (num_at e 0 * vx + num_at e 4 * vy + num_at e 8 * vz + num_at e 12) * pw,
                               y := (num_at e 1 * vx + num_at e 5 * vy + num_at e 9 * vz + num_at e 13) * pw,
                               z := (num_at e 2 * vx + num_at e 6 * vy + num_at e 10 * vz + num_at e 14) * pw\<rparr>)
                   st)))"

definition Vector3_transformDirection :: "addr \<Rightarrow> matrix \<Rightarrow> vector3 world \<Rightarrow> vector3 result" where
  "Vector3_transformDirection a m st =
     (let vx = x (heap st a); vy = y (heap st a); vz = z (heap st a);
          e = elements m
      in if \<not> defined_at e [0, 4, 8, 1, 5, 9, 2, 6, 10] then Inl NotANumber
         else Vector3_normalize a
           (upd a (\<lambda>t. t\<lparr>x := num_at e 0 * vx + num_at e 4 * vy + num_at e 8 * vz,
                          y := num_at e 1 * vx + num_at e 5 * vy + num_at e 9 * vz,
                          z := num_at e 2 * vx + num_at e 6 * vy + num_at e 10 * vz\<rparr>) st))"

definition Vector3_project :: "addr \<Rightarrow> camera \<Rightarrow> vector3 world \<Rightarrow> vector3 result" where
  "Vector3_project a cam st =
     call_on (Vector3_applyMatrix4 a (matrixWorldInverse cam) st)
       (\<lambda>b. Vector3_applyMatrix4 b (projectionMatrix cam))"

definition Vector3_unproject :: "addr \<Rightarrow> camera \<Rightarrow> vector3 world \<Rightarrow> vector3 result" where
  "Vector3_unproject a cam st =
     call_on (Vector3_applyMatrix4 a (projectionMatrixInverse cam) st)
       (\<lambda>b. Vector3_applyMatrix4 b (matrixWorld cam))"

subsection \<open>Interpolation, clamping, rounding, negation\<close>

definition Vector3_lerp :: "addr \<Rightarrow> 'm xyz_scheme \<Rightarrow> real \<Rightarrow> vector3 world \<Rightarrow> vector3 result" where
  "Vector3_lerp a v alpha st =
     Inr (Ref a, Vector3_markDirty a
       (upd a (\<lambda>t. t\<lparr>x := x t + (x v - x t) * alpha,
                      y := y t + (y v - y t) * alpha,
                      z := z t + (z v - z t) * alpha\<rparr>) st))"

definition Vector3_lerpVectors ::
  "addr \<Rightarrow> 'm xyz_scheme \<Rightarrow> 'n xyz_scheme \<Rightarrow> real \<Rightarrow> vector3 world \<Rightarrow> vector3 result" where
  "Vector3_lerpVectors a v1 v2 alpha st =
     Inr (Ref a, Vector3_markDirty a
       (upd a (\<lambda>t. t\<lparr>x := x v1 + (x v2 - x v1) * alpha,
                      y := y v1 + (y v2 - y v1) * alpha,
                      z := z v1 + (z v2 - z v1) * alpha\<rparr>) st))"

definition Vector3_clamp ::
  "addr \<Rightarrow> 'm xyz_scheme \<Rightarrow> 'n xyz_scheme \<Rightarrow> vector3 world \<Rightarrow> vector3 result" where
  "Vector3_clamp a lo hi st =
     Inr (Ref a, Vector3_markDirty a
       (upd a (\<lambda>t. t\<lparr>x := MathUtils_clamp (x t) (x lo) (x hi),
                      y := MathUtils_clamp (y t) (y lo) (y hi),
                      z := MathUtils_clamp (z t) (z lo) (z hi)\<rparr>) st))"

definition Vector3_clampScalar :: "addr \<Rightarrow> real \<Rightarrow> real \<Rightarrow> vector3 world \<Rightarrow> vector3 result" where
  "Vector3_clampScalar a minVal maxVal st =
     Inr (Ref a, Vector3_markDirty a
       (upd a (\<lambda>t. t\<lparr>x := MathUtils_clamp (x t) minVal maxVal,
                      y := MathUtils_clamp (y t) minVal maxVal,
                      z := MathUtils_clamp (z t) minVal maxVal\<rparr>) st))"

text \<open>
  \<open>clampLength(min, max)\<close>: \<open>const len = this.length(); return
  this.divideScalar(len || 1).multiplyScalar(clamp(len, min, max));\<close>
\<close>

definition Vector3_clampLength :: "addr \<Rightarrow> real \<Rightarrow> real \<Rightarrow> vector3 world \<Rightarrow> vector3 result" where
  "Vector3_clampLength a lo hi st =
     (case Vector3_length a st of
        (len, st1) \<Rightarrow>
          call_on (Vector3_divideScalar a (if len = 0 then 1 else len) st1)
            (\<lambda>b. Vector3_multiplyScalar b (MathUtils_clamp len lo hi)))"

definition Vector3_floor :: "addr \<Rightarrow> vector3 world \<Rightarrow> vector3 result" where
  "Vector3_floor a st =
     Inr (Ref a, Vector3_markDirty a
       (upd a (\<lambda>t. t\<lparr>x := Math_floor (x t), y := Math_floor (y t), z := Math_floor (z t)\<rparr>) st))"

definition Vector3_ceil :: "addr \<Rightarrow> vector3 world \<Rightarrow> vector3 result" where
  "Vector3_ceil a st =
     Inr (Ref a, Vector3_markDirty a
       (upd a (\<lambda>t. t\<lparr>x := Math_ceil (x t), y := Math_ceil (y t), z := Math_ceil (z t)\<rparr>) st))"

definition Vector3_round :: "addr \<Rightarrow> vector3 world \<Rightarrow> vector3 result" where
  "Vector3_round a st =
     Inr (Ref a, Vector3_markDirty a
       (upd a (\<lambda>t. t\<lparr>x := Math_round (x t), y := Math_round (y t), z := Math_round (z t)\<rparr>) st))"

definition Vector3_roundToZero :: "addr \<Rightarrow> vector3 world \<Rightarrow> vector3 result" where
  "Vector3_roundToZero a st =
     Inr (Ref a, Vector3_markDirty a
       (upd a (\<lambda>t. t\<lparr>x := Math_trunc (x t), y := Math_trunc (y t), z := Math_trunc (z t)\<rparr>) st))"

definition Vector3_negate :: "addr \<Rightarrow> vector3 world \<Rightarrow> vector3 result" where
  "Vector3_negate a st =
     Inr (Ref a, Vector3_markDirty a
       (upd a (\<lambda>t. t\<lparr>x := - x t, y := - y t, z := - z t\<rparr>) st))"

subsection \<open>Dot and cross products, angle and distance\<close>

definition Vector3_dot :: "addr \<Rightarrow> 'm xyz_scheme \<Rightarrow> vector3 world \<Rightarrow> real \<times> vector3 world" where
  "Vector3_dot a v st =
     (x (heap st a) * x v + y (heap st a) * y v + z (heap st a) * z v, st)"

definition Vector3_crossVectors ::
  "addr \<Rightarrow> 'm xyz_scheme \<Rightarrow> 'n xyz_scheme \<Rightarrow> vector3 world \<Rightarrow> vector3 result" where
  "Vector3_crossVectors a u v st =
     (let ax = x u; ay = y u; az = z u;
          bx = x v; by' = y v; bz = z v
      in Inr (Ref a, Vector3_markDirty a
           (upd a (\<lambda>t. t\<lparr>x := ay * bz - az * by',
                          y := az * bx - ax * bz,
                          z := ax * by' - ay * bx\<rparr>) st)))"

text \<open>\<open>cross(v)\<close> is \<open>this.crossVectors(this, v)\<close>.\<close>

definition Vector3_cross :: "addr \<Rightarrow> 'm xyz_scheme \<Rightarrow> vector3 world \<Rightarrow> vector3 result" where
  "Vector3_cross a v st = Vector3_crossVectors a (heap st a) v st"

definition Vector3_angleTo :: "addr \<Rightarrow> 'm xyz_scheme \<Rightarrow> vector3 world \<Rightarrow> real \<times> vector3 world" where
  "Vector3_angleTo a v st =
     (case Vector3_lengthSq a st of
        (l, st1) \<Rightarrow>
          let denom = sqrt (l * xyz_lengthSq v)
          in if denom = 0 then (pi / 2, st1)
             else case Vector3_dot a v st1 of
                    (d, st2) \<Rightarrow> (arccos (MathUtils_clamp (d / denom) (- 1) 1), st2))"

definition Vector3_distanceToSquared ::
  "addr \<Rightarrow> 'm xyz_scheme \<Rightarrow> vector3 world \<Rightarrow> real \<times> vector3 world" where
  "Vector3_distanceToSquared a v st =
     (let dx = x (heap st a) - x v;
          dy = y (heap st a) - y v;
          dz = z (heap st a) - z v
      in (dx * dx + dy * dy + dz * dz, st))"

definition Vector3_distanceTo ::
  "addr \<Rightarrow> 'm xyz_scheme \<Rightarrow> vector3 world \<Rightarrow> real \<times> vector3 world" where
  "Vector3_distanceTo a v st =
     (case Vector3_distanceToSquared a v st of (d, st1) \<Rightarrow> (sqrt d, st1))"

definition Vector3_manhattanDistanceTo ::
  "addr \<Rightarrow> 'm xyz_scheme \<Rightarrow> vector3 world \<Rightarrow> real \<times> vector3 world" where
  "Vector3_manhattanDistanceTo a v st =
     (\<bar>x (heap st a) - x v\<bar> + \<bar>y (heap st a) - y v\<bar> + \<bar>z (heap st a) - z v\<bar>, st)"

subsection \<open>Projection and reflection\<close>

definition Vector3_projectOnVector :: "addr \<Rightarrow> 'm xyz_scheme \<Rightarrow> vector3 world \<Rightarrow> vector3 result" where
  "Vector3_projectOnVector a v st =
     (let denom = xyz_lengthSq v
      in if denom = 0 then Vector3_set a 0 0 (Some 0) st
         else case Vector3_dot a v st of
                (d, st1) \<Rightarrow>
                  call_on (Vector3_copy a v st1) (\<lambda>b. Vector3_multiplyScalar b (d / denom)))"

text \<open>
  \<open>projectOnPlane\<close> and \<open>reflect\<close> work on the module's scratch vector
  \<open>_vector\<close>, which the file uses and does not declare: its address \<open>sv\<close> is a
  parameter. The source reads
  \<^verbatim>\<open>_vector.copy(this).projectOnVector(planeNormal);
  return this.sub(_vector).#markDirty();\<close>
  and
  \<^verbatim>\<open>const scale = 2 * this.dot(normal);
  return this.sub(_vector.copy(normal).multiplyScalar(scale)).#markDirty();\<close>
  The value returned is what \<open>#markDirty()\<close> returns, which has no \<open>return\<close>.
\<close>

definition Vector3_projectOnPlane ::
  "addr \<Rightarrow> addr \<Rightarrow> 'm xyz_scheme \<Rightarrow> vector3 world \<Rightarrow> vector3 result" where
  "Vector3_projectOnPlane sv a planeNormal st =
     (case call_on (Vector3_copy sv (heap st a) st)
             (\<lambda>b. Vector3_projectOnVector b planeNormal) of
        Inl e \<Rightarrow> Inl e
      | Inr (r, st1) \<Rightarrow>
          call_on (Vector3_sub a (heap st1 sv) st1)
            (\<lambda>b st2. Inr (Undefined, Vector3_markDirty b st2)))"

definition Vector3_reflect ::
  "addr \<Rightarrow> addr \<Rightarrow> 'm xyz_scheme \<Rightarrow> vector3 world \<Rightarrow> vector3 result" where
  "Vector3_reflect sv a normal st =
     (case Vector3_dot a normal st of
        (d, st0) \<Rightarrow>
          let scale = 2 * d
          in (case call_on (Vector3_copy sv normal st0)
                     (\<lambda>b. Vector3_multiplyScalar b scale) of
                Inl e \<Rightarrow> Inl e
              | Inr (Undefined, st1) \<Rightarrow> Inl TypeError
              | Inr (Ref c, st1) \<Rightarrow>
                  call_on (Vector3_sub a (heap st1 c) st1)
                    (\<lambda>b st2. Inr (Undefined, Vector3_markDirty b st2))))"

subsection \<open>Coordinate conversions\<close>

definition Vector3_setFromSphericalCoords ::
  "addr \<Rightarrow> real \<Rightarrow> real \<Rightarrow> real \<Rightarrow> vector3 world \<Rightarrow> vector3 result" where
  "Vector3_setFromSphericalCoords a rad ph th st =
     (let sinPhiRadius = sin ph * rad
      in Inr (Ref a, Vector3_markDirty a
           (upd a (\<lambda>t. t\<lparr>x := sinPhiRadius * sin th,
                          y := cos ph * rad,
                          z := sinPhiRadius * cos th\<rparr>) st)))"

definition Vector3_setFromSpherical :: "addr \<Rightarrow> spherical \<Rightarrow> vector3 world \<Rightarrow> vector3 result" where
  "Vector3_setFromSpherical a s st =
     Vector3_setFromSphericalCoords a (radius s) (phi s) (theta s) st"

definition Vector3_setFromCylindricalCoords ::
  "addr \<Rightarrow> real \<Rightarrow> real \<Rightarrow> real \<Rightarrow> vector3 world \<Rightarrow> vector3 result" where
  "Vector3_setFromCylindricalCoords a rad th ny st =
     Inr (Ref a, Vector3_markDirty a
       (upd a (\<lambda>t. t\<lparr>x := rad * sin th, y := ny, z := rad * cos th\<rparr>) st))"

definition Vector3_setFromCylindrical :: "addr \<Rightarrow> cylindrical \<Rightarrow> vector3 world \<Rightarrow> vector3 result" where
  "Vector3_setFromCylindrical a c st =
     Vector3_setFromCylindricalCoords a (cyl_radius c) (cyl_theta c) (cyl_y c) st"

definition Vector3_setFromMatrixPosition :: "addr \<Rightarrow> matrix \<Rightarrow> vector3 world \<Rightarrow> vector3 result" where
  "Vector3_setFromMatrixPosition a m st =
     (let e = elements m
      in if \<not> defined_at e [12, 13, 14] then Inl NotANumber
         else Inr (Ref a, Vector3_markDirty a
           (upd a (\<lambda>t. t\<lparr>x := num_at e 12, y := num_at e 13, z := num_at e 14\<rparr>) st)))"

subsection \<open>Equality and the flat-array encoding\<close>

definition Vector3_equals :: "addr \<Rightarrow> 'm xyz_scheme \<Rightarrow> vector3 world \<Rightarrow> bool \<times> vector3 world" where
  "Vector3_equals a v st =
     (x v = x (heap st a) \<and> y v = y (heap st a) \<and> z v = z (heap st a), st)"

text \<open>\<open>fromArray(array, offset = 0)\<close> and \<open>toArray(array = [], offset = 0)\<close>.\<close>

definition Vector3_fromArray :: "addr \<Rightarrow> js_array \<Rightarrow> nat \<Rightarrow> vector3 world \<Rightarrow> vector3 result" where
  "Vector3_fromArray a array offset st =
     (if \<not> defined_at array [offset, offset + 1, offset + 2] then Inl NotANumber
      else Inr (Ref a, Vector3_markDirty a
        (upd a (\<lambda>t. t\<lparr>x := num_at array offset,
                       y := num_at array (offset + 1),
                       z := num_at array (offset + 2)\<rparr>) st)))"

definition Vector3_toArray ::
  "addr \<Rightarrow> js_array \<Rightarrow> nat \<Rightarrow> vector3 world \<Rightarrow> js_array \<times> vector3 world" where
  "Vector3_toArray a array offset st =
     (array(offset \<mapsto> x (heap st a),
            offset + 1 \<mapsto> y (heap st a),
            offset + 2 \<mapsto> z (heap st a)), st)"

definition Vector3_setFromMatrixColumn ::
  "addr \<Rightarrow> matrix \<Rightarrow> nat \<Rightarrow> vector3 world \<Rightarrow> vector3 result" where
  "Vector3_setFromMatrixColumn a m index st = Vector3_fromArray a (elements m) (index * 4) st"

definition Vector3_setFromMatrix3Column ::
  "addr \<Rightarrow> matrix \<Rightarrow> nat \<Rightarrow> vector3 world \<Rightarrow> vector3 result" where
  "Vector3_setFromMatrix3Column a m index st = Vector3_fromArray a (elements m) (index * 3) st"

text \<open>
  \<open>setFromMatrixScale(m)\<close>:
  \<^verbatim>\<open>this.x = this.setFromMatrixColumn(m, 0).length();
  this.y = this.setFromMatrixColumn(m, 1).length();
  this.z = this.setFromMatrixColumn(m, 2).length();
  this.#markDirty();
  return this;\<close>
  Each right-hand side overwrites all three components before its length is assigned
  to one of them.
\<close>

definition Vector3_setFromMatrixScale :: "addr \<Rightarrow> matrix \<Rightarrow> vector3 world \<Rightarrow> vector3 result" where
  "Vector3_setFromMatrixScale a m st =
     (case query_on (Vector3_setFromMatrixColumn a m 0 st) Vector3_length of
        Inl e \<Rightarrow> Inl e
      | Inr (sx, st1) \<Rightarrow>
     (case query_on (Vector3_setFromMatrixColumn a m 1 (upd a (\<lambda>t. t\<lparr>x := sx\<rparr>) st1))
             Vector3_length of
        Inl e \<Rightarrow> Inl e
      | Inr (sy, st2) \<Rightarrow>
     (case query_on (Vector3_setFromMatrixColumn a m 2 (upd a (\<lambda>t. t\<lparr>y := sy\<rparr>) st2))
             Vector3_length of
        Inl e \<Rightarrow> Inl e
      | Inr (sz, st3) \<Rightarrow>
          Inr (Ref a, Vector3_markDirty a (upd a (\<lambda>t. t\<lparr>z := sz\<rparr>) st3)))))"

text \<open>
  \<open>setFromEuler(e)\<close> reads \<open>e._x\<close>, \<open>e._y\<close>, \<open>e._z\<close> and \<open>setFromColor(c)\<close>
  reads \<open>c.r\<close>, \<open>c.g\<close>, \<open>c.b\<close>.
\<close>

record euler =
  euler_x :: real
  euler_y :: real
  euler_z :: real

record color =
  color_r :: real
  color_g :: real
  color_b :: real

definition Vector3_setFromEuler :: "addr \<Rightarrow> euler \<Rightarrow> vector3 world \<Rightarrow> vector3 result" where
  "Vector3_setFromEuler a e st =
     Inr (Ref a, Vector3_markDirty a
       (upd a (\<lambda>t. t\<lparr>x := euler_x e, y := euler_y e, z := euler_z e\<rparr>) st))"

definition Vector3_setFromColor :: "addr \<Rightarrow> color \<Rightarrow> vector3 world \<Rightarrow> vector3 result" where
  "Vector3_setFromColor a c st =
     Inr (Ref a, Vector3_markDirty a
       (upd a (\<lambda>t. t\<lparr>x := color_r c, y := color_g c, z := color_b c\<rparr>) st))"

definition Vector3_fromBufferAttribute ::
  "addr \<Rightarrow> bufferAttribute \<Rightarrow> nat \<Rightarrow> vector3 world \<Rightarrow> vector3 result" where
  "Vector3_fromBufferAttribute a attribute index st =
     Inr (Ref a, Vector3_markDirty a
       (upd a (\<lambda>t. t\<lparr>x := getX attribute index,
                      y := getY attribute index,
                      z := getZ attribute index\<rparr>) st))"

subsection \<open>Randomisation and iteration\<close>

text \<open>The numbers that \<open>Math.random()\<close> returns, in the order of the calls, are arguments.\<close>

definition Vector3_random :: "addr \<Rightarrow> real \<Rightarrow> real \<Rightarrow> real \<Rightarrow> vector3 world \<Rightarrow> vector3 result" where
  "Vector3_random a r1 r2 r3 st =
     Inr (Ref a, Vector3_markDirty a (upd a (\<lambda>t. t\<lparr>x := r1, y := r2, z := r3\<rparr>) st))"

definition Vector3_randomDirection :: "addr \<Rightarrow> real \<Rightarrow> real \<Rightarrow> vector3 world \<Rightarrow> vector3 result" where
  "Vector3_randomDirection a r1 r2 st =
     (let th = r1 * pi * 2;
          u = r2 * 2 - 1
      in if 1 - u * u < 0 then Inl NotANumber
         else
           let c = sqrt (1 - u * u)
           in Inr (Ref a, Vector3_markDirty a
                (upd a (\<lambda>t. t\<lparr>x := c * cos th, y := u, z := c * sin th\<rparr>) st)))"

text \<open>The iterator yields \<open>x\<close>, \<open>y\<close>, \<open>z\<close>.\<close>

definition Vector3_iterator :: "addr \<Rightarrow> vector3 world \<Rightarrow> real list \<times> vector3 world" where
  "Vector3_iterator a st = ([x (heap st a), y (heap st a), z (heap st a)], st)"

section \<open>Vector4 (Vector4.js)\<close>

text \<open>
  The file Vector4.js holds the Vector4 class and, after it, the Vector2 class. The
  methods that Vector4 shares with Vector3 have the same bodies with a fourth component.
\<close>

record vector4 = xyzw +
  isDirty :: bool
  onChange :: "observer option"

definition Vector4_constructor :: "real \<Rightarrow> real \<Rightarrow> real \<Rightarrow> real \<Rightarrow> vector4" where
  "Vector4_constructor vx vy vz vw =
     \<lparr>x = vx, y = vy, z = vz, w = vw, vector4.isDirty = False, vector4.onChange = None\<rparr>"

definition Vector4_markDirty :: "addr \<Rightarrow> vector4 world \<Rightarrow> vector4 world" where
  "Vector4_markDirty a st =
     (let st1 = upd a (\<lambda>t. t\<lparr>vector4.isDirty := True\<rparr>) st
      in case vector4.onChange (heap st1 a) of
           Some f \<Rightarrow> st1\<lparr>calls := calls st1 @ [(f, a)]\<rparr>
         | None \<Rightarrow> st1)"

subsection \<open>Component accessors\<close>

definition Vector4_set :: "addr \<Rightarrow> real \<Rightarrow> real \<Rightarrow> real \<Rightarrow> real \<Rightarrow> vector4 world \<Rightarrow> vector4 result" where
  "Vector4_set a nx ny nz nw st =
     Inr (Ref a, Vector4_markDirty a
       (upd a (\<lambda>t. t\<lparr>x := nx, y := ny, z := nz, w := nw\<rparr>) st))"

definition Vector4_setScalar :: "addr \<Rightarrow> real \<Rightarrow> vector4 world \<Rightarrow> vector4 result" where
  "Vector4_setScalar a scalar st =
     Inr (Ref a, Vector4_markDirty a
       (upd a (\<lambda>t. t\<lparr>x := scalar, y := scalar, z := scalar, w := scalar\<rparr>) st))"

definition Vector4_setX :: "addr \<Rightarrow> real \<Rightarrow> vector4 world \<Rightarrow> vector4 result" where
  "Vector4_setX a nx st = Inr (Ref a, Vector4_markDirty a (upd a (\<lambda>t. t\<lparr>x := nx\<rparr>) st))"

definition Vector4_setY :: "addr \<Rightarrow> real \<Rightarrow> vector4 world \<Rightarrow> vector4 result" where
  "Vector4_setY a ny st = Inr (Ref a, Vector4_markDirty a (upd a (\<lambda>t. t\<lparr>y := ny\<rparr>) st))"

definition Vector4_setZ :: "addr \<Rightarrow> real \<Rightarrow> vector4 world \<Rightarrow> vector4 result" where
  "Vector4_setZ a nz st = Inr (Ref a, Vector4_markDirty a (upd a (\<lambda>t. t\<lparr>z := nz\<rparr>) st))"

definition Vector4_setW :: "addr \<Rightarrow> real \<Rightarrow> vector4 world \<Rightarrow> vector4 result" where
  "Vector4_setW a nw st = Inr (Ref a, Vector4_markDirty a (upd a (\<lambda>t. t\<lparr>w := nw\<rparr>) st))"

definition Vector4_setComponent :: "addr \<Rightarrow> int \<Rightarrow> real \<Rightarrow> vector4 world \<Rightarrow> vector4 result" where
  "Vector4_setComponent a i v st =
     (if i = 0 then Inr (Ref a, Vector4_markDirty a (upd a (\<lambda>t. t\<lparr>x := v\<rparr>) st))
      else if i = 1 then Inr (Ref a, Vector4_markDirty a (upd a (\<lambda>t. t\<lparr>y := v\<rparr>) st))
      else if i = 2 then Inr (Ref a, Vector4_markDirty a (upd a (\<lambda>t. t\<lparr>z := v\<rparr>) st))
      else if i = 3 then Inr (Ref a, Vector4_markDirty a (upd a (\<lambda>t. t\<lparr>w := v\<rparr>) st))
      else Inl (IndexOutOfRange i))"

definition Vector4_getComponent :: "addr \<Rightarrow> int \<Rightarrow> vector4 world \<Rightarrow> error + real \<times> vector4 world" where
  "Vector4_getComponent a i st =
     (if i = 0 then Inr (x (heap st a), st)
      else if i = 1 then Inr (y (heap st a), st)
      else if i = 2 then Inr (z (heap st a), st)
      else if i = 3 then Inr (w (heap st a), st)
      else Inl (IndexOutOfRange i))"

text \<open>
  \<open>copy(v)\<close> ends with \<open>this.w = v.w !== undefined ? v.w : 1\<close>: the argument
  is an object with \<open>x\<close>, \<open>y\<close>, \<open>z\<close> and, possibly, \<open>w\<close>.
\<close>

record xyz_w = xyz +
  w_opt :: "real option"

definition Vector4_copy :: "addr \<Rightarrow> xyz_w \<Rightarrow> vector4 world \<Rightarrow> vector4 result" where
  "Vector4_copy a v st =
     Inr (Ref a, Vector4_markDirty a
       (upd a (\<lambda>t. t\<lparr>x := x v, y := y v, z := z v,
                      w := (case w_opt v of Some c \<Rightarrow> c | None \<Rightarrow> 1)\<rparr>) st))"

subsection \<open>Arithmetic\<close>

definition Vector4_add :: "addr \<Rightarrow> 'm xyzw_scheme \<Rightarrow> vector4 world \<Rightarrow> vector4 result" where
  "Vector4_add a v st =
     Inr (Ref a, Vector4_markDirty a
       (upd a (\<lambda>t. t\<lparr>x := x t + x v, y := y t + y v, z := z t + z v, w := w t + w v\<rparr>) st))"

definition Vector4_addScalar :: "addr \<Rightarrow> real \<Rightarrow> vector4 world \<Rightarrow> vector4 result" where
  "Vector4_addScalar a s st =
     Inr (Ref a, Vector4_markDirty a
       (upd a (\<lambda>t. t\<lparr>x := x t + s, y := y t + s, z := z t + s, w := w t + s\<rparr>) st))"

definition Vector4_addVectors :: "addr \<Rightarrow> 'm xyzw_scheme \<Rightarrow> 'n xyzw_scheme \<Rightarrow> vector4 world \<Rightarrow> vector4 result" where
  "Vector4_addVectors a u v st =
     Inr (Ref a, Vector4_markDirty a
       (upd a (\<lambda>t. t\<lparr>x := x u + x v, y := y u + y v, z := z u + z v, w := w u + w v\<rparr>) st))"

definition Vector4_addScaledVector :: "addr \<Rightarrow> 'm xyzw_scheme \<Rightarrow> real \<Rightarrow> vector4 world \<Rightarrow> vector4 result" where
  "Vector4_addScaledVector a v s st =
     Inr (Ref a, Vector4_markDirty a
       (upd a (\<lambda>t. t\<lparr>x := x t + x v * s,
                      y := y t + y v * s,
                      z := z t + z v * s,
                      w := w t + w v * s\<rparr>) st))"

definition Vector4_sub :: "addr \<Rightarrow> 'm xyzw_scheme \<Rightarrow> vector4 world \<Rightarrow> vector4 result" where
  "Vector4_sub a v st =
     Inr (Ref a, Vector4_markDirty a
       (upd a (\<lambda>t. t\<lparr>x := x t - x v, y := y t - y v, z := z t - z v, w := w t - w v\<rparr>) st))"

definition Vector4_subScalar :: "addr \<Rightarrow> real \<Rightarrow> vector4 world \<Rightarrow> vector4 result" where
  "Vector4_subScalar a s st =
     Inr (Ref a, Vector4_markDirty a
       (upd a (\<lambda>t. t\<lparr>x := x t - s, y := y t - s, z := z t - s, w := w t - s\<rparr>) st))"

definition Vector4_subVectors :: "addr \<Rightarrow> 'm xyzw_scheme \<Rightarrow> 'n xyzw_scheme \<Rightarrow> vector4 world \<Rightarrow> vector4 result" where
  "Vector4_subVectors a u v st =
     Inr (Ref a, Vector4_markDirty a
       (upd a (\<lambda>t. t\<lparr>x := x u - x v, y := y u - y v, z := z u - z v, w := w u - w v\<rparr>) st))"

definition Vector4_multiply :: "addr \<Rightarrow> 'm xyzw_scheme \<Rightarrow> vector4 world \<Rightarrow> vector4 result" where
  "Vector4_multiply a v st =
     Inr (Ref a, Vector4_markDirty a
       (upd a (\<lambda>t. t\<lparr>x := x t * x v, y := y t * y v, z := z t * z v, w := w t * w v\<rparr>) st))"

definition Vector4_multiplyScalar :: "addr \<Rightarrow> real \<Rightarrow> vector4 world \<Rightarrow> vector4 result" where
  "Vector4_multiplyScalar a scalar st =
     Inr (Ref a, Vector4_markDirty a
       (upd a (\<lambda>t. t\<lparr>x := x t * scalar,
                      y := y t * scalar,
                      z := z t * scalar,
                      w := w t * scalar\<rparr>) st))"

definition Vector4_divide :: "addr \<Rightarrow> 'm xyzw_scheme \<Rightarrow> vector4 world \<Rightarrow> vector4 result" where
  "Vector4_divide a v st =
     (if x v = 0 \<or> y v = 0 \<or> z v = 0 \<or> w v = 0 then Inl NotANumber
      else Inr (Ref a, Vector4_markDirty a
        (upd a (\<lambda>t. t\<lparr>x := x t / x v, y := y t / y v, z := z t / z v, w := w t / w v\<rparr>) st)))"

text \<open>\<open>divideScalar(scalar)\<close> is \<open>this.multiplyScalar(1 / scalar)\<close>.\<close>

definition Vector4_divideScalar :: "addr \<Rightarrow> real \<Rightarrow> vector4 world \<Rightarrow> vector4 result" where
  "Vector4_divideScalar a scalar st =
     (if scalar = 0 then Inl NotANumber else Vector4_multiplyScalar a (1 / scalar) st)"

subsection \<open>Length\<close>

definition Vector4_lengthSq :: "addr \<Rightarrow> vector4 world \<Rightarrow> real \<times> vector4 world" where
  "Vector4_lengthSq a st = (xyzw_lengthSq (heap st a), st)"

definition Vector4_length :: "addr \<Rightarrow> vector4 world \<Rightarrow> real \<times> vector4 world" where
  "Vector4_length a st = (case Vector4_lengthSq a st of (l, st1) \<Rightarrow> (sqrt l, st1))"

definition Vector4_manhattanLength :: "addr \<Rightarrow> vector4 world \<Rightarrow> real \<times> vector4 world" where
  "Vector4_manhattanLength a st =
     (\<bar>x (heap st a)\<bar> + \<bar>y (heap st a)\<bar> + \<bar>z (heap st a)\<bar> + \<bar>w (heap st a)\<bar>, st)"

definition Vector4_normalize :: "addr \<Rightarrow> vector4 world \<Rightarrow> vector4 result" where
  "Vector4_normalize a st =
     (case Vector4_length a st of
        (l, st1) \<Rightarrow> Vector4_divideScalar a (if l = 0 then 1 else l) st1)"

definition Vector4_setLength :: "addr \<Rightarrow> real \<Rightarrow> vector4 world \<Rightarrow> vector4 result" where
  "Vector4_setLength a len st =
     call_on (Vector4_normalize a st) (\<lambda>b. Vector4_multiplyScalar b len)"

subsection \<open>Matrix transformation and axis-angle conversion\<close>

text \<open>\<open>applyMatrix4\<close> is the full product of the matrix and the vector: no perspective divide.\<close>

definition Vector4_applyMatrix4 :: "addr \<Rightarrow> matrix \<Rightarrow> vector4 world \<Rightarrow> vector4 result" where
  "Vector4_applyMatrix4 a m st =
     (let vx = x (heap st a); vy = y (heap st a); vz = z (heap st a); vw = w (heap st a);
          e = elements m
      in if \<not> defined_at e [0, 4, 8, 12, 1, 5, 9, 13, 2, 6, 10, 14, 3, 7, 11, 15]
         then Inl NotANumber
         else Inr (Ref a, Vector4_markDirty a
           (upd a (\<lambda>t. t\<lparr>x := num_at e 0 * vx + num_at e 4 * vy + num_at e 8 * vz + num_at e 12 * vw,
                          y := num_at e 1 * vx + num_at e 5 * vy + num_at e 9 * vz + num_at e 13 * vw,
                          z := num_at e 2 * vx + num_at e 6 * vy + num_at e 10 * vz + num_at e 14 * vw,
                          w := num_at e 3 * vx + num_at e 7 * vy + num_at e 11 * vz + num_at e 15 * vw\<rparr>)
              st)))"

text \<open>
  \<open>setAxisAngleFromQuaternion(q)\<close>:
  \<^verbatim>\<open>this.w = 2 * Math.acos(q.w);
  const s = Math.sqrt(1 - q.w * q.w);
  if (s < 0.0001) { this.x = 1; this.y = 0; this.z = 0; }
  else { this.x = q.x / s; this.y = q.y / s; this.z = q.z / s; }\<close>
  \<open>Math.acos\<close> and the root are numbers when \<open>q.w\<close> lies in \<open>[-1, 1]\<close>.
\<close>

definition Vector4_setAxisAngleFromQuaternion ::
  "addr \<Rightarrow> 'm xyzw_scheme \<Rightarrow> vector4 world \<Rightarrow> vector4 result" where
  "Vector4_setAxisAngleFromQuaternion a q st =
     (if w q < - 1 \<or> 1 < w q then Inl NotANumber
      else
        let angle = 2 * arccos (w q);
            s = sqrt (1 - w q * w q)
        in if s < 1 / 10000
           then Inr (Ref a, Vector4_markDirty a
                  (upd a (\<lambda>t. t\<lparr>w := angle, x := 1, y := 0, z := 0\<rparr>) st))
           else Inr (Ref a, Vector4_markDirty a
                  (upd a (\<lambda>t. t\<lparr>w := angle, x := x q / s, y := y q / s, z := z q / s\<rparr>) st)))"

text \<open>
  \<open>setAxisAngleFromRotationMatrix(m)\<close> reads the upper left 3x3 block of
  \<open>m.elements\<close> (column-major: \<open>m12\<close> is \<open>te[4]\<close>), with
  \<open>epsilon = 0.01\<close> and \<open>epsilon2 = 0.1\<close>. The two tests of the source are named
  \<open>near_symmetric\<close> and \<open>near_identity\<close>. Both branches of the near-symmetric
  case call \<open>this.set\<close> and then \<open>this.#markDirty()\<close>.
\<close>

definition near_symmetric :: "js_array \<Rightarrow> bool" where
  "near_symmetric te =
     (\<bar>num_at te 4 - num_at te 1\<bar> < 1 / 100
      \<and> \<bar>num_at te 8 - num_at te 2\<bar> < 1 / 100
      \<and> \<bar>num_at te 9 - num_at te 6\<bar> < 1 / 100)"

definition near_identity :: "js_array \<Rightarrow> bool" where
  "near_identity te =
     (\<bar>num_at te 4 + num_at te 1\<bar> < 1 / 10
      \<and> \<bar>num_at te 8 + num_at te 2\<bar> < 1 / 10
      \<and> \<bar>num_at te 9 + num_at te 6\<bar> < 1 / 10
      \<and> \<bar>num_at te 0 + num_at te 5 + num_at te 10 - 3\<bar> < 1 / 10)"

definition Vector4_setAxisAngleFromRotationMatrix ::
  "addr \<Rightarrow> matrix \<Rightarrow> vector4 world \<Rightarrow> vector4 result" where
  "Vector4_setAxisAngleFromRotationMatrix a m st =
     (let te = elements m
      in if \<not> defined_at te [0, 4, 8, 1, 5, 9, 2, 6, 10] then Inl NotANumber
         else
           let m11 = num_at te 0; m12 = num_at te 4; m13 = num_at te 8;
               m21 = num_at te 1; m22 = num_at te 5; m23 = num_at te 9;
               m31 = num_at te 2; m32 = num_at te 6; m33 = num_at te 10
           in if near_symmetric te then
                if near_identity te then
                  (case Vector4_set a 1 0 0 0 st of
                     Inl e \<Rightarrow> Inl e
                   | Inr (r, st1) \<Rightarrow> Inr (Ref a, Vector4_markDirty a st1))
                else
                  let angle = pi;
                      xx = (m11 + 1) / 2;
                      yy = (m22 + 1) / 2;
                      zz = (m33 + 1) / 2;
                      xy' = (m12 + m21) / 4;
                      xz = (m13 + m31) / 4;
                      yz = (m23 + m32) / 4
                  in if xx > yy \<and> xx > zz then
                       if xx \<le> 0 then Inl NotANumber
                       else
                         (case Vector4_set a (sqrt xx) (xy' / sqrt xx) (xz / sqrt xx) angle st of
                            Inl e \<Rightarrow> Inl e
                          | Inr (r, st1) \<Rightarrow> Inr (Ref a, Vector4_markDirty a st1))
                     else if yy > zz then
                       if yy \<le> 0 then Inl NotANumber
                       else
                         (case Vector4_set a (xy' / sqrt yy) (sqrt yy) (yz / sqrt yy) angle st of
                            Inl e \<Rightarrow> Inl e
                          | Inr (r, st1) \<Rightarrow> Inr (Ref a, Vector4_markDirty a st1))
                     else
                       if zz \<le> 0 then Inl NotANumber
                       else
                         (case Vector4_set a (xz / sqrt zz) (yz / sqrt zz) (sqrt zz) angle st of
                            Inl e \<Rightarrow> Inl e
                          | Inr (r, st1) \<Rightarrow> Inr (Ref a, Vector4_markDirty a st1))
              else
                let s0 = sqrt ((m32 - m23)\<^sup>2 + (m13 - m31)\<^sup>2 + (m21 - m12)\<^sup>2);
                    s = (if \<bar>s0\<bar> < 1 / 1000 then 1 else s0)
                in if (m11 + m22 + m33 - 1) / 2 < - 1 \<or> 1 < (m11 + m22 + m33 - 1) / 2
                   then Inl NotANumber
                   else Inr (Ref a, Vector4_markDirty a
                     (upd a (\<lambda>t. t\<lparr>x := (m32 - m23) / s,
                                    y := (m13 - m31) / s,
                                    z := (m21 - m12) / s,
                                    w := arccos ((m11 + m22 + m33 - 1) / 2)\<rparr>) st)))"

subsection \<open>Interpolation, clamping, rounding, negation\<close>

definition Vector4_lerp :: "addr \<Rightarrow> 'm xyzw_scheme \<Rightarrow> real \<Rightarrow> vector4 world \<Rightarrow> vector4 result" where
  "Vector4_lerp a v alpha st =
     Inr (Ref a, Vector4_markDirty a
       (upd a (\<lambda>t. t\<lparr>x := x t + (x v - x t) * alpha,
                      y := y t + (y v - y t) * alpha,
                      z := z t + (z v - z t) * alpha,
                      w := w t + (w v - w t) * alpha\<rparr>) st))"

definition Vector4_lerpVectors :: "addr \<Rightarrow> 'm xyzw_scheme \<Rightarrow> 'n xyzw_scheme \<Rightarrow> real \<Rightarrow> vector4 world \<Rightarrow> vector4 result" where
  "Vector4_lerpVectors a v1 v2 alpha st =
     Inr (Ref a, Vector4_markDirty a
       (upd a (\<lambda>t. t\<lparr>x := x v1 + (x v2 - x v1) * alpha,
                      y := y v1 + (y v2 - y v1) * alpha,
                      z := z v1 + (z v2 - z v1) * alpha,
                      w := w v1 + (w v2 - w v1) * alpha\<rparr>) st))"

definition Vector4_clamp :: "addr \<Rightarrow> 'm xyzw_scheme \<Rightarrow> 'n xyzw_scheme \<Rightarrow> vector4 world \<Rightarrow> vector4 result" where
  "Vector4_clamp a lo hi st =
     Inr (Ref a, Vector4_markDirty a
       (upd a (\<lambda>t. t\<lparr>x := MathUtils_clamp (x t) (x lo) (x hi),
                      y := MathUtils_clamp (y t) (y lo) (y hi),
                      z := MathUtils_clamp (z t) (z lo) (z hi),
                      w := MathUtils_clamp (w t) (w lo) (w hi)\<rparr>) st))"

definition Vector4_clampScalar :: "addr \<Rightarrow> real \<Rightarrow> real \<Rightarrow> vector4 world \<Rightarrow> vector4 result" where
  "Vector4_clampScalar a minVal maxVal st =
     Inr (Ref a, Vector4_markDirty a
       (upd a (\<lambda>t. t\<lparr>x := MathUtils_clamp (x t) minVal maxVal,
                      y := MathUtils_clamp (y t) minVal maxVal,
                      z := MathUtils_clamp (z t) minVal maxVal,
                      w := MathUtils_clamp (w t) minVal maxVal\<rparr>) st))"

definition Vector4_clampLength :: "addr \<Rightarrow> real \<Rightarrow> real \<Rightarrow> vector4 world \<Rightarrow> vector4 result" where
  "Vector4_clampLength a lo hi st =
     (case Vector4_length a st of
        (len, st1) \<Rightarrow>
          call_on (Vector4_divideScalar a (if len = 0 then 1 else len) st1)
            (\<lambda>b. Vector4_multiplyScalar b (MathUtils_clamp len lo hi)))"

definition Vector4_floor :: "addr \<Rightarrow> vector4 world \<Rightarrow> vector4 result" where
  "Vector4_floor a st =
     Inr (Ref a, Vector4_markDirty a
       (upd a (\<lambda>t. t\<lparr>x := Math_floor (x t),
                      y := Math_floor (y t),
                      z := Math_floor (z t),
                      w := Math_floor (w t)\<rparr>) st))"

definition Vector4_ceil :: "addr \<Rightarrow> vector4 world \<Rightarrow> vector4 result" where
  "Vector4_ceil a st =
     Inr (Ref a, Vector4_markDirty a
       (upd a (\<lambda>t. t\<lparr>x := Math_ceil (x t),
                      y := Math_ceil (y t),
                      z := Math_ceil (z t),
                      w := Math_ceil (w t)\<rparr>) st))"

definition Vector4_round :: "addr \<Rightarrow> vector4 world \<Rightarrow> vector4 result" where
  "Vector4_round a st =
     Inr (Ref a, Vector4_markDirty a
       (upd a (\<lambda>t. t\<lparr>x := Math_round (x t),
                      y := Math_round (y t),
                      z := Math_round (z t),
                      w := Math_round (w t)\<rparr>) st))"

definition Vector4_roundToZero :: "addr \<Rightarrow> vector4 world \<Rightarrow> vector4 result" where
  "Vector4_roundToZero a st =
     Inr (Ref a, Vector4_markDirty a
       (upd a (\<lambda>t. t\<lparr>x := Math_trunc (x t),
                      y := Math_trunc (y t),
                      z := Math_trunc (z t),
                      w := Math_trunc (w t)\<rparr>) st))"

definition Vector4_negate :: "addr \<Rightarrow> vector4 world \<Rightarrow> vector4 result" where
  "Vector4_negate a st =
     Inr (Ref a, Vector4_markDirty a
       (upd a (\<lambda>t. t\<lparr>x := - x t, y := - y t, z := - z t, w := - w t\<rparr>) st))"

subsection \<open>Dot product and equality\<close>

definition Vector4_dot :: "addr \<Rightarrow> 'm xyzw_scheme \<Rightarrow> vector4 world \<Rightarrow> real \<times> vector4 world" where
  "Vector4_dot a v st =
     (x (heap st a) * x v + y (heap st a) * y v + z (heap st a) * z v + w (heap st a) * w v, st)"

definition Vector4_equals :: "addr \<Rightarrow> 'm xyzw_scheme \<Rightarrow> vector4 world \<Rightarrow> bool \<times> vector4 world" where
  "Vector4_equals a v st =
     (x v = x (heap st a) \<and> y v = y (heap st a) \<and> z v = z (heap st a) \<and> w v = w (heap st a), st)"

subsection \<open>The flat-array encoding, buffer attributes, randomisation, iteration\<close>

definition Vector4_fromArray :: "addr \<Rightarrow> js_array \<Rightarrow> nat \<Rightarrow> vector4 world \<Rightarrow> vector4 result" where
  "Vector4_fromArray a array offset st =
     (if \<not> defined_at array [offset, offset + 1, offset + 2, offset + 3] then Inl NotANumber
      else Inr (Ref a, Vector4_markDirty a
        (upd a (\<lambda>t. t\<lparr>x := num_at array offset,
                       y := num_at array (offset + 1),
                       z := num_at array (offset + 2),
                       w := num_at array (offset + 3)\<rparr>) st)))"

definition Vector4_toArray ::
  "addr \<Rightarrow> js_array \<Rightarrow> nat \<Rightarrow> vector4 world \<Rightarrow> js_array \<times> vector4 world" where
  "Vector4_toArray a array offset st =
     (array(offset \<mapsto> x (heap st a),
            offset + 1 \<mapsto> y (heap st a),
            offset + 2 \<mapsto> z (heap st a),
            offset + 3 \<mapsto> w (heap st a)), st)"

definition Vector4_fromBufferAttribute ::
  "addr \<Rightarrow> bufferAttribute \<Rightarrow> nat \<Rightarrow> vector4 world \<Rightarrow> vector4 result" where
  "Vector4_fromBufferAttribute a attribute index st =
     Inr (Ref a, Vector4_markDirty a
       (upd a (\<lambda>t. t\<lparr>x := getX attribute index,
                      y := getY attribute index,
                      z := getZ attribute index,
                      w := getW attribute index\<rparr>) st))"

definition Vector4_random :: "addr \<Rightarrow> real \<Rightarrow> real \<Rightarrow> real \<Rightarrow> real \<Rightarrow> vector4 world \<Rightarrow> vector4 result" where
  "Vector4_random a r1 r2 r3 r4 st =
     Inr (Ref a, Vector4_markDirty a
       (upd a (\<lambda>t. t\<lparr>x := r1, y := r2, z := r3, w := r4\<rparr>) st))"

definition Vector4_iterator :: "addr \<Rightarrow> vector4 world \<Rightarrow> real list \<times> vector4 world" where
  "Vector4_iterator a st = ([x (heap st a), y (heap st a), z (heap st a), w (heap st a)], st)"

section \<open>Vector2 (Vector4.js)\<close>

text \<open>The Vector2 class, from the second half of Vector4.js.\<close>

record vector2 = xy +
  isDirty :: bool
  onChange :: "observer option"

definition Vector2_constructor :: "real \<Rightarrow> real \<Rightarrow> vector2" where
  "Vector2_constructor vx vy =
     \<lparr>x = vx, y = vy, vector2.isDirty = False, vector2.onChange = None\<rparr>"

definition Vector2_markDirty :: "addr \<Rightarrow> vector2 world \<Rightarrow> vector2 world" where
  "Vector2_markDirty a st =
     (let st1 = upd a (\<lambda>t. t\<lparr>vector2.isDirty := True\<rparr>) st
      in case vector2.onChange (heap st1 a) of
           Some f \<Rightarrow> st1\<lparr>calls := calls st1 @ [(f, a)]\<rparr>
         | None \<Rightarrow> st1)"

subsection \<open>Component accessors\<close>

definition Vector2_set :: "addr \<Rightarrow> real \<Rightarrow> real \<Rightarrow> vector2 world \<Rightarrow> vector2 result" where
  "Vector2_set a nx ny st =
     Inr (Ref a, Vector2_markDirty a
       (upd a (\<lambda>t. t\<lparr>x := nx, y := ny\<rparr>) st))"

definition Vector2_setScalar :: "addr \<Rightarrow> real \<Rightarrow> vector2 world \<Rightarrow> vector2 result" where
  "Vector2_setScalar a scalar st =
     Inr (Ref a, Vector2_markDirty a
       (upd a (\<lambda>t. t\<lparr>x := scalar, y := scalar\<rparr>) st))"

definition Vector2_setX :: "addr \<Rightarrow> real \<Rightarrow> vector2 world \<Rightarrow> vector2 result" where
  "Vector2_setX a nx st = Inr (Ref a, Vector2_markDirty a (upd a (\<lambda>t. t\<lparr>x := nx\<rparr>) st))"

definition Vector2_setY :: "addr \<Rightarrow> real \<Rightarrow> vector2 world \<Rightarrow> vector2 result" where
  "Vector2_setY a ny st = Inr (Ref a, Vector2_markDirty a (upd a (\<lambda>t. t\<lparr>y := ny\<rparr>) st))"

definition Vector2_setComponent :: "addr \<Rightarrow> int \<Rightarrow> real \<Rightarrow> vector2 world \<Rightarrow> vector2 result" where
  "Vector2_setComponent a i v st =
     (if i = 0 then Inr (Ref a, Vector2_markDirty a (upd a (\<lambda>t. t\<lparr>x := v\<rparr>) st))
      else if i = 1 then Inr (Ref a, Vector2_markDirty a (upd a (\<lambda>t. t\<lparr>y := v\<rparr>) st))
      else Inl (IndexOutOfRange i))"

definition Vector2_getComponent :: "addr \<Rightarrow> int \<Rightarrow> vector2 world \<Rightarrow> error + real \<times> vector2 world" where
  "Vector2_getComponent a i st =
     (if i = 0 then Inr (x (heap st a), st)
      else if i = 1 then Inr (y (heap st a), st)
      else Inl (IndexOutOfRange i))"

definition Vector2_copy :: "addr \<Rightarrow> 'm xy_scheme \<Rightarrow> vector2 world \<Rightarrow> vector2 result" where
  "Vector2_copy a v st =
     Inr (Ref a, Vector2_markDirty a
       (upd a (\<lambda>t. t\<lparr>x := x v, y := y v\<rparr>) st))"

subsection \<open>Arithmetic\<close>

definition Vector2_add :: "addr \<Rightarrow> 'm xy_scheme \<Rightarrow> vector2 world \<Rightarrow> vector2 result" where
  "Vector2_add a v st =
     Inr (Ref a, Vector2_markDirty a
       (upd a (\<lambda>t. t\<lparr>x := x t + x v, y := y t + y v\<rparr>) st))"

definition Vector2_addScalar :: "addr \<Rightarrow> real \<Rightarrow> vector2 world \<Rightarrow> vector2 result" where
  "Vector2_addScalar a s st =
     Inr (Ref a, Vector2_markDirty a
       (upd a (\<lambda>t. t\<lparr>x := x t + s, y := y t + s\<rparr>) st))"

definition Vector2_addVectors :: "addr \<Rightarrow> 'm xy_scheme \<Rightarrow> 'n xy_scheme \<Rightarrow> vector2 world \<Rightarrow> vector2 result" where
  "Vector2_addVectors a u v st =
     Inr (Ref a, Vector2_markDirty a
       (upd a (\<lambda>t. t\<lparr>x := x u + x v, y := y u + y v\<rparr>) st))"

definition Vector2_addScaledVector :: "addr \<Rightarrow> 'm xy_scheme \<Rightarrow> real \<Rightarrow> vector2 world \<Rightarrow> vector2 result" where
  "Vector2_addScaledVector a v s st =
     Inr (Ref a, Vector2_markDirty a
       (upd a (\<lambda>t. t\<lparr>x := x t + x v * s,
                      y := y t + y v * s\<rparr>) st))"

definition Vector2_sub :: "addr \<Rightarrow> 'm xy_scheme \<Rightarrow> vector2 world \<Rightarrow> vector2 result" where
  "Vector2_sub a v st =
     Inr (Ref a, Vector2_markDirty a
       (upd a (\<lambda>t. t\<lparr>x := x t - x v, y := y t - y v\<rparr>) st))"

definition Vector2_subScalar :: "addr \<Rightarrow> real \<Rightarrow> vector2 world \<Rightarrow> vector2 result" where
  "Vector2_subScalar a s st =
     Inr (Ref a, Vector2_markDirty a
       (upd a (\<lambda>t. t\<lparr>x := x t - s, y := y t - s\<rparr>) st))"

definition Vector2_subVectors :: "addr \<Rightarrow> 'm xy_scheme \<Rightarrow> 'n xy_scheme \<Rightarrow> vector2 world \<Rightarrow> vector2 result" where
  "Vector2_subVectors a u v st =
     Inr (Ref a, Vector2_markDirty a
       (upd a (\<lambda>t. t\<lparr>x := x u - x v, y := y u - y v\<rparr>) st))"

definition Vector2_multiply :: "addr \<Rightarrow> 'm xy_scheme \<Rightarrow> vector2 world \<Rightarrow> vector2 result" where
  "Vector2_multiply a v st =
     Inr (Ref a, Vector2_markDirty a
       (upd a (\<lambda>t. t\<lparr>x := x t * x v, y := y t * y v\<rparr>) st))"

definition Vector2_multiplyScalar :: "addr \<Rightarrow> real \<Rightarrow> vector2 world \<Rightarrow> vector2 result" where
  "Vector2_multiplyScalar a scalar st =
     Inr (Ref a, Vector2_markDirty a
       (upd a (\<lambda>t. t\<lparr>x := x t * scalar,
                      y := y t * scalar\<rparr>) st))"

definition Vector2_divide :: "addr \<Rightarrow> 'm xy_scheme \<Rightarrow> vector2 world \<Rightarrow> vector2 result" where
  "Vector2_divide a v st =
     (if x v = 0 \<or> y v = 0 then Inl NotANumber
      else Inr (Ref a, Vector2_markDirty a
        (upd a (\<lambda>t. t\<lparr>x := x t / x v, y := y t / y v\<rparr>) st)))"

text \<open>\<open>divideScalar(scalar)\<close> is \<open>this.multiplyScalar(1 / scalar)\<close>.\<close>

definition Vector2_divideScalar :: "addr \<Rightarrow> real \<Rightarrow> vector2 world \<Rightarrow> vector2 result" where
  "Vector2_divideScalar a scalar st =
     (if scalar = 0 then Inl NotANumber else Vector2_multiplyScalar a (1 / scalar) st)"

subsection \<open>Length\<close>

definition Vector2_lengthSq :: "addr \<Rightarrow> vector2 world \<Rightarrow> real \<times> vector2 world" where
  "Vector2_lengthSq a st = (xy_lengthSq (heap st a), st)"

definition Vector2_length :: "addr \<Rightarrow> vector2 world \<Rightarrow> real \<times> vector2 world" where
  "Vector2_length a st = (case Vector2_lengthSq a st of (l, st1) \<Rightarrow> (sqrt l, st1))"

definition Vector2_manhattanLength :: "addr \<Rightarrow> vector2 world \<Rightarrow> real \<times> vector2 world" where
  "Vector2_manhattanLength a st =
     (\<bar>x (heap st a)\<bar> + \<bar>y (heap st a)\<bar>, st)"

definition Vector2_normalize :: "addr \<Rightarrow> vector2 world \<Rightarrow> vector2 result" where
  "Vector2_normalize a st =
     (case Vector2_length a st of
        (l, st1) \<Rightarrow> Vector2_divideScalar a (if l = 0 then 1 else l) st1)"

definition Vector2_setLength :: "addr \<Rightarrow> real \<Rightarrow> vector2 world \<Rightarrow> vector2 result" where
  "Vector2_setLength a len st =
     call_on (Vector2_normalize a st) (\<lambda>b. Vector2_multiplyScalar b len)"

subsection \<open>Matrix transformation and rotation\<close>

definition Vector2_applyMatrix3 :: "addr \<Rightarrow> matrix \<Rightarrow> vector2 world \<Rightarrow> vector2 result" where
  "Vector2_applyMatrix3 a m st =
     (let vx = x (heap st a); vy = y (heap st a);
          e = elements m
      in if \<not> defined_at e [0, 3, 6, 1, 4, 7] then Inl NotANumber
         else Inr (Ref a, Vector2_markDirty a
           (upd a (\<lambda>t. t\<lparr>x := num_at e 0 * vx + num_at e 3 * vy + num_at e 6,
                          y := num_at e 1 * vx + num_at e 4 * vy + num_at e 7\<rparr>) st)))"

definition Vector2_rotateAround ::
  "addr \<Rightarrow> 'm xy_scheme \<Rightarrow> real \<Rightarrow> vector2 world \<Rightarrow> vector2 result" where
  "Vector2_rotateAround a center angle st =
     (let c = cos angle; s = sin angle;
          dx = x (heap st a) - x center;
          dy = y (heap st a) - y center
      in Inr (Ref a, Vector2_markDirty a
           (upd a (\<lambda>t. t\<lparr>x := dx * c - dy * s + x center,
                          y := dx * s + dy * c + y center\<rparr>) st)))"

subsection \<open>Dot and cross products, angle and distance\<close>

text \<open>
  \<open>angle()\<close>, which is \<open>Math.atan2(-this.y, -this.x) + Math.PI\<close>, depends on the
  sign of a zero and is not modelled.
\<close>

definition Vector2_dot :: "addr \<Rightarrow> 'm xy_scheme \<Rightarrow> vector2 world \<Rightarrow> real \<times> vector2 world" where
  "Vector2_dot a v st =
     (x (heap st a) * x v + y (heap st a) * y v, st)"

definition Vector2_cross :: "addr \<Rightarrow> 'm xy_scheme \<Rightarrow> vector2 world \<Rightarrow> real \<times> vector2 world" where
  "Vector2_cross a v st = (x (heap st a) * y v - y (heap st a) * x v, st)"

definition Vector2_angleTo :: "addr \<Rightarrow> 'm xy_scheme \<Rightarrow> vector2 world \<Rightarrow> real \<times> vector2 world" where
  "Vector2_angleTo a v st =
     (case Vector2_lengthSq a st of
        (l, st1) \<Rightarrow>
          let denom = sqrt (l * xy_lengthSq v)
          in if denom = 0 then (pi / 2, st1)
             else case Vector2_dot a v st1 of
                    (d, st2) \<Rightarrow> (arccos (MathUtils_clamp (d / denom) (- 1) 1), st2))"

definition Vector2_distanceToSquared ::
  "addr \<Rightarrow> 'm xy_scheme \<Rightarrow> vector2 world \<Rightarrow> real \<times> vector2 world" where
  "Vector2_distanceToSquared a v st =
     (let dx = x (heap st a) - x v;
          dy = y (heap st a) - y v
      in (dx * dx + dy * dy, st))"

definition Vector2_distanceTo ::
  "addr \<Rightarrow> 'm xy_scheme \<Rightarrow> vector2 world \<Rightarrow> real \<times> vector2 world" where
  "Vector2_distanceTo a v st =
     (case Vector2_distanceToSquared a v st of (d, st1) \<Rightarrow> (sqrt d, st1))"

definition Vector2_manhattanDistanceTo ::
  "addr \<Rightarrow> 'm xy_scheme \<Rightarrow> vector2 world \<Rightarrow> real \<times> vector2 world" where
  "Vector2_manhattanDistanceTo a v st =
     (\<bar>x (heap st a) - x v\<bar> + \<bar>y (heap st a) - y v\<bar>, st)"

subsection \<open>Clamping, rounding, negation\<close>

definition Vector2_clamp :: "addr \<Rightarrow> 'm xy_scheme \<Rightarrow> 'n xy_scheme \<Rightarrow> vector2 world \<Rightarrow> vector2 result" where
  "Vector2_clamp a lo hi st =
     Inr (Ref a, Vector2_markDirty a
       (upd a (\<lambda>t. t\<lparr>x := MathUtils_clamp (x t) (x lo) (x hi),
                      y := MathUtils_clamp (y t) (y lo) (y hi)\<rparr>) st))"

definition Vector2_clampScalar :: "addr \<Rightarrow> real \<Rightarrow> real \<Rightarrow> vector2 world \<Rightarrow> vector2 result" where
  "Vector2_clampScalar a minVal maxVal st =
     Inr (Ref a, Vector2_markDirty a
       (upd a (\<lambda>t. t\<lparr>x := MathUtils_clamp (x t) minVal maxVal,
                      y := MathUtils_clamp (y t) minVal maxVal\<rparr>) st))"

definition Vector2_clampLength :: "addr \<Rightarrow> real \<Rightarrow> real \<Rightarrow> vector2 world \<Rightarrow> vector2 result" where
  "Vector2_clampLength a lo hi st =
     (case Vector2_length a st of
        (len, st1) \<Rightarrow>
          call_on (Vector2_divideScalar a (if len = 0 then 1 else len) st1)
            (\<lambda>b. Vector2_multiplyScalar b (MathUtils_clamp len lo hi)))"

definition Vector2_floor :: "addr \<Rightarrow> vector2 world \<Rightarrow> vector2 result" where
  "Vector2_floor a st =
     Inr (Ref a, Vector2_markDirty a
       (upd a (\<lambda>t. t\<lparr>x := Math_floor (x t),
                      y := Math_floor (y t)\<rparr>) st))"

definition Vector2_ceil :: "addr \<Rightarrow> vector2 world \<Rightarrow> vector2 result" where
  "Vector2_ceil a st =
     Inr (Ref a, Vector2_markDirty a
       (upd a (\<lambda>t. t\<lparr>x := Math_ceil (x t),
                      y := Math_ceil (y t)\<rparr>) st))"

definition Vector2_round :: "addr \<Rightarrow> vector2 world \<Rightarrow> vector2 result" where
  "Vector2_round a st =
     Inr (Ref a, Vector2_markDirty a
       (upd a (\<lambda>t. t\<lparr>x := Math_round (x t),
                      y := Math_round (y t)\<rparr>) st))"

definition Vector2_roundToZero :: "addr \<Rightarrow> vector2 world \<Rightarrow> vector2 result" where
  "Vector2_roundToZero a st =
     Inr (Ref a, Vector2_markDirty a
       (upd a (\<lambda>t. t\<lparr>x := Math_trunc (x t),
                      y := Math_trunc (y t)\<rparr>) st))"

definition Vector2_negate :: "addr \<Rightarrow> vector2 world \<Rightarrow> vector2 result" where
  "Vector2_negate a st =
     Inr (Ref a, Vector2_markDirty a
       (upd a (\<lambda>t. t\<lparr>x := - x t, y := - y t\<rparr>) st))"

definition Vector2_equals :: "addr \<Rightarrow> 'm xy_scheme \<Rightarrow> vector2 world \<Rightarrow> bool \<times> vector2 world" where
  "Vector2_equals a v st =
     (x v = x (heap st a) \<and> y v = y (heap st a), st)"

subsection \<open>The flat-array encoding, buffer attributes, randomisation, iteration\<close>

definition Vector2_fromArray :: "addr \<Rightarrow> js_array \<Rightarrow> nat \<Rightarrow> vector2 world \<Rightarrow> vector2 result" where
  "Vector2_fromArray a array offset st =
     (if \<not> defined_at array [offset, offset + 1] then Inl NotANumber
      else Inr (Ref a, Vector2_markDirty a
        (upd a (\<lambda>t. t\<lparr>x := num_at array offset,
                       y := num_at array (offset + 1)\<rparr>) st)))"

definition Vector2_toArray ::
  "addr \<Rightarrow> js_array \<Rightarrow> nat \<Rightarrow> vector2 world \<Rightarrow> js_array \<times> vector2 world" where
  "Vector2_toArray a array offset st =
     (array(offset \<mapsto> x (heap st a),
            offset + 1 \<mapsto> y (heap st a)), st)"

definition Vector2_fromBufferAttribute ::
  "addr \<Rightarrow> bufferAttribute \<Rightarrow> nat \<Rightarrow> vector2 world \<Rightarrow> vector2 result" where
  "Vector2_fromBufferAttribute a attribute index st =
     Inr (Ref a, Vector2_markDirty a
       (upd a (\<lambda>t. t\<lparr>x := getX attribute index,
                      y := getY attribute index\<rparr>) st))"

definition Vector2_random :: "addr \<Rightarrow> real \<Rightarrow> real \<Rightarrow> vector2 world \<Rightarrow> vector2 result" where
  "Vector2_random a r1 r2 st =
     Inr (Ref a, Vector2_markDirty a
       (upd a (\<lambda>t. t\<lparr>x := r1, y := r2\<rparr>) st))"

definition Vector2_iterator :: "addr \<Rightarrow> vector2 world \<Rightarrow> real list \<times> vector2 world" where
  "Vector2_iterator a st = ([x (heap st a), y (heap st a)], st)"

section \<open>The calls of the three classes\<close>

text \<open>
  To speak of every mutating operation and of every query, the calls are collected in
  datatypes: a constructor per method, with the arguments of the call, and a function
  that runs the method named. A call that mutates is run by \<open>VectorN_mutate\<close>; a
  query by \<open>VectorN_ask\<close>, which returns the number, the truth value or the
  sequence of numbers that the query yields. \<open>getComponent\<close> and
  \<open>toArray\<close> are neither; \<open>clone\<close>, which allocates a vector, and
  \<open>angle\<close> of Vector2 are not modelled.
\<close>

datatype qval = Number real | Boolean bool | Numbers "real list"

datatype v3_call =
    V3_set real real "real option"
  | V3_setScalar real
  | V3_setX real
  | V3_setY real
  | V3_setZ real
  | V3_setComponent int real
  | V3_copy xyz
  | V3_add xyz
  | V3_addScalar real
  | V3_addVectors xyz xyz
  | V3_addScaledVector xyz real
  | V3_sub xyz
  | V3_subScalar real
  | V3_subVectors xyz xyz
  | V3_multiply xyz
  | V3_multiplyScalar real
  | V3_multiplyVectors xyz xyz
  | V3_divide xyz
  | V3_divideScalar real
  | V3_applyQuaternion xyzw
  | V3_applyEuler euler
  | V3_applyAxisAngle xyz real
  | V3_applyMatrix3 matrix
  | V3_applyNormalMatrix matrix
  | V3_applyMatrix4 matrix
  | V3_transformDirection matrix
  | V3_project camera
  | V3_unproject camera
  | V3_normalize
  | V3_setLength real
  | V3_lerp xyz real
  | V3_lerpVectors xyz xyz real
  | V3_clamp xyz xyz
  | V3_clampScalar real real
  | V3_clampLength real real
  | V3_floor
  | V3_ceil
  | V3_round
  | V3_roundToZero
  | V3_negate
  | V3_cross xyz
  | V3_crossVectors xyz xyz
  | V3_projectOnVector xyz
  | V3_projectOnPlane xyz
  | V3_reflect xyz
  | V3_setFromSpherical spherical
  | V3_setFromSphericalCoords real real real
  | V3_setFromCylindrical cylindrical
  | V3_setFromCylindricalCoords real real real
  | V3_setFromMatrixPosition matrix
  | V3_setFromMatrixScale matrix
  | V3_setFromMatrixColumn matrix nat
  | V3_setFromMatrix3Column matrix nat
  | V3_setFromEuler euler
  | V3_setFromColor color
  | V3_fromArray js_array nat
  | V3_fromBufferAttribute bufferAttribute nat
  | V3_random real real real
  | V3_randomDirection real real

primrec Vector3_mutate ::
  "(euler \<Rightarrow> xyzw) \<Rightarrow> (xyz \<Rightarrow> real \<Rightarrow> xyzw) \<Rightarrow> addr \<Rightarrow> addr \<Rightarrow> v3_call \<Rightarrow> vector3 world \<Rightarrow> vector3 result" where
  "Vector3_mutate setFromEuler setFromAxisAngle sv a (V3_set p1 p2 p3) =
     Vector3_set a p1 p2 p3"
| "Vector3_mutate setFromEuler setFromAxisAngle sv a (V3_setScalar p1) =
     Vector3_setScalar a p1"
| "Vector3_mutate setFromEuler setFromAxisAngle sv a (V3_setX p1) =
     Vector3_setX a p1"
| "Vector3_mutate setFromEuler setFromAxisAngle sv a (V3_setY p1) =
     Vector3_setY a p1"
| "Vector3_mutate setFromEuler setFromAxisAngle sv a (V3_setZ p1) =
     Vector3_setZ a p1"
| "Vector3_mutate setFromEuler setFromAxisAngle sv a (V3_setComponent p1 p2) =
     Vector3_setComponent a p1 p2"
| "Vector3_mutate setFromEuler setFromAxisAngle sv a (V3_copy p1) =
     Vector3_copy a p1"
| "Vector3_mutate setFromEuler setFromAxisAngle sv a (V3_add p1) =
     Vector3_add a p1"
| "Vector3_mutate setFromEuler setFromAxisAngle sv a (V3_addScalar p1) =
     Vector3_addScalar a p1"
| "Vector3_mutate setFromEuler setFromAxisAngle sv a (V3_addVectors p1 p2) =
     Vector3_addVectors a p1 p2"
| "Vector3_mutate setFromEuler setFromAxisAngle sv a (V3_addScaledVector p1 p2) =
     Vector3_addScaledVector a p1 p2"
| "Vector3_mutate setFromEuler setFromAxisAngle sv a (V3_sub p1) =
     Vector3_sub a p1"
| "Vector3_mutate setFromEuler setFromAxisAngle sv a (V3_subScalar p1) =
     Vector3_subScalar a p1"
| "Vector3_mutate setFromEuler setFromAxisAngle sv a (V3_subVectors p1 p2) =
     Vector3_subVectors a p1 p2"
| "Vector3_mutate setFromEuler setFromAxisAngle sv a (V3_multiply p1) =
     Vector3_multiply a p1"
| "Vector3_mutate setFromEuler setFromAxisAngle sv a (V3_multiplyScalar p1) =
     Vector3_multiplyScalar a p1"
| "Vector3_mutate setFromEuler setFromAxisAngle sv a (V3_multiplyVectors p1 p2) =
     Vector3_multiplyVectors a p1 p2"
| "Vector3_mutate setFromEuler setFromAxisAngle sv a (V3_divide p1) =
     Vector3_divide a p1"
| "Vector3_mutate setFromEuler setFromAxisAngle sv a (V3_divideScalar p1) =
     Vector3_divideScalar a p1"
| "Vector3_mutate setFromEuler setFromAxisAngle sv a (V3_applyQuaternion p1) =
     Vector3_applyQuaternion a p1"
| "Vector3_mutate setFromEuler setFromAxisAngle sv a (V3_applyEuler p1) =
     Vector3_applyEuler setFromEuler a p1"
| "Vector3_mutate setFromEuler setFromAxisAngle sv a (V3_applyAxisAngle p1 p2) =
     Vector3_applyAxisAngle setFromAxisAngle a p1 p2"
| "Vector3_mutate setFromEuler setFromAxisAngle sv a (V3_applyMatrix3 p1) =
     Vector3_applyMatrix3 a p1"
| "Vector3_mutate setFromEuler setFromAxisAngle sv a (V3_applyNormalMatrix p1) =
     Vector3_applyNormalMatrix a p1"
| "Vector3_mutate setFromEuler setFromAxisAngle sv a (V3_applyMatrix4 p1) =
     Vector3_applyMatrix4 a p1"
| "Vector3_mutate setFromEuler setFromAxisAngle sv a (V3_transformDirection p1) =
     Vector3_transformDirection a p1"
| "Vector3_mutate setFromEuler setFromAxisAngle sv a (V3_project p1) =
     Vector3_project a p1"
| "Vector3_mutate setFromEuler setFromAxisAngle sv a (V3_unproject p1) =
     Vector3_unproject a p1"
| "Vector3_mutate setFromEuler setFromAxisAngle sv a V3_normalize =
     Vector3_normalize a"
| "Vector3_mutate setFromEuler setFromAxisAngle sv a (V3_setLength p1) =
     Vector3_setLength a p1"
| "Vector3_mutate setFromEuler setFromAxisAngle sv a (V3_lerp p1 p2) =
     Vector3_lerp a p1 p2"
| "Vector3_mutate setFromEuler setFromAxisAngle sv a (V3_lerpVectors p1 p2 p3) =
     Vector3_lerpVectors a p1 p2 p3"
| "Vector3_mutate setFromEuler setFromAxisAngle sv a (V3_clamp p1 p2) =
     Vector3_clamp a p1 p2"
| "Vector3_mutate setFromEuler setFromAxisAngle sv a (V3_clampScalar p1 p2) =
     Vector3_clampScalar a p1 p2"
| "Vector3_mutate setFromEuler setFromAxisAngle sv a (V3_clampLength p1 p2) =
     Vector3_clampLength a p1 p2"
| "Vector3_mutate setFromEuler setFromAxisAngle sv a V3_floor =
     Vector3_floor a"
| "Vector3_mutate setFromEuler setFromAxisAngle sv a V3_ceil =
     Vector3_ceil a"
| "Vector3_mutate setFromEuler setFromAxisAngle sv a V3_round =
     Vector3_round a"
| "Vector3_mutate setFromEuler setFromAxisAngle sv a V3_roundToZero =
     Vector3_roundToZero a"
| "Vector3_mutate setFromEuler setFromAxisAngle sv a V3_negate =
     Vector3_negate a"
| "Vector3_mutate setFromEuler setFromAxisAngle sv a (V3_cross p1) =
     Vector3_cross a p1"
| "Vector3_mutate setFromEuler setFromAxisAngle sv a (V3_crossVectors p1 p2) =
     Vector3_crossVectors a p1 p2"
| "Vector3_mutate setFromEuler setFromAxisAngle sv a (V3_projectOnVector p1) =
     Vector3_projectOnVector a p1"
| "Vector3_mutate setFromEuler setFromAxisAngle sv a (V3_projectOnPlane p1) =
     Vector3_projectOnPlane sv a p1"
| "Vector3_mutate setFromEuler setFromAxisAngle sv a (V3_reflect p1) =
     Vector3_reflect sv a p1"
| "Vector3_mutate setFromEuler setFromAxisAngle sv a (V3_setFromSpherical p1) =
     Vector3_setFromSpherical a p1"
| "Vector3_mutate setFromEuler setFromAxisAngle sv a (V3_setFromSphericalCoords p1 p2 p3) =
     Vector3_setFromSphericalCoords a p1 p2 p3"
| "Vector3_mutate setFromEuler setFromAxisAngle sv a (V3_setFromCylindrical p1) =
     Vector3_setFromCylindrical a p1"
| "Vector3_mutate setFromEuler setFromAxisAngle sv a (V3_setFromCylindricalCoords p1 p2 p3) =
     Vector3_setFromCylindricalCoords a p1 p2 p3"
| "Vector3_mutate setFromEuler setFromAxisAngle sv a (V3_setFromMatrixPosition p1) =
     Vector3_setFromMatrixPosition a p1"
| "Vector3_mutate setFromEuler setFromAxisAngle sv a (V3_setFromMatrixScale p1) =
     Vector3_setFromMatrixScale a p1"
| "Vector3_mutate setFromEuler setFromAxisAngle sv a (V3_setFromMatrixColumn p1 p2) =
     Vector3_setFromMatrixColumn a p1 p2"
| "Vector3_mutate setFromEuler setFromAxisAngle sv a (V3_setFromMatrix3Column p1 p2) =
     Vector3_setFromMatrix3Column a p1 p2"
| "Vector3_mutate setFromEuler setFromAxisAngle sv a (V3_setFromEuler p1) =
     Vector3_setFromEuler a p1"
| "Vector3_mutate setFromEuler setFromAxisAngle sv a (V3_setFromColor p1) =
     Vector3_setFromColor a p1"
| "Vector3_mutate setFromEuler setFromAxisAngle sv a (V3_fromArray p1 p2) =
     Vector3_fromArray a p1 p2"
| "Vector3_mutate setFromEuler setFromAxisAngle sv a (V3_fromBufferAttribute p1 p2) =
     Vector3_fromBufferAttribute a p1 p2"
| "Vector3_mutate setFromEuler setFromAxisAngle sv a (V3_random p1 p2 p3) =
     Vector3_random a p1 p2 p3"
| "Vector3_mutate setFromEuler setFromAxisAngle sv a (V3_randomDirection p1 p2) =
     Vector3_randomDirection a p1 p2"

datatype v3_query =
    V3q_equals xyz
  | V3q_lengthSq
  | V3q_length
  | V3q_manhattanLength
  | V3q_dot xyz
  | V3q_angleTo xyz
  | V3q_distanceTo xyz
  | V3q_distanceToSquared xyz
  | V3q_manhattanDistanceTo xyz
  | V3q_iterator

primrec Vector3_ask :: "addr \<Rightarrow> v3_query \<Rightarrow> vector3 world \<Rightarrow> qval \<times> vector3 world" where
  "Vector3_ask a (V3q_equals p1) st =
     (case Vector3_equals a p1 st of (v, st1) \<Rightarrow> (Boolean v, st1))"
| "Vector3_ask a V3q_lengthSq st =
     (case Vector3_lengthSq a st of (v, st1) \<Rightarrow> (Number v, st1))"
| "Vector3_ask a V3q_length st =
     (case Vector3_length a st of (v, st1) \<Rightarrow> (Number v, st1))"
| "Vector3_ask a V3q_manhattanLength st =
     (case Vector3_manhattanLength a st of (v, st1) \<Rightarrow> (Number v, st1))"
| "Vector3_ask a (V3q_dot p1) st =
     (case Vector3_dot a p1 st of (v, st1) \<Rightarrow> (Number v, st1))"
| "Vector3_ask a (V3q_angleTo p1) st =
     (case Vector3_angleTo a p1 st of (v, st1) \<Rightarrow> (Number v, st1))"
| "Vector3_ask a (V3q_distanceTo p1) st =
     (case Vector3_distanceTo a p1 st of (v, st1) \<Rightarrow> (Number v, st1))"
| "Vector3_ask a (V3q_distanceToSquared p1) st =
     (case Vector3_distanceToSquared a p1 st of (v, st1) \<Rightarrow> (Number v, st1))"
| "Vector3_ask a (V3q_manhattanDistanceTo p1) st =
     (case Vector3_manhattanDistanceTo a p1 st of (v, st1) \<Rightarrow> (Number v, st1))"
| "Vector3_ask a V3q_iterator st =
     (case Vector3_iterator a st of (v, st1) \<Rightarrow> (Numbers v, st1))"

datatype v4_call =
    V4_set real real real real
  | V4_setScalar real
  | V4_setX real
  | V4_setY real
  | V4_setZ real
  | V4_setW real
  | V4_setComponent int real
  | V4_copy xyz_w
  | V4_add xyzw
  | V4_addScalar real
  | V4_addVectors xyzw xyzw
  | V4_addScaledVector xyzw real
  | V4_sub xyzw
  | V4_subScalar real
  | V4_subVectors xyzw xyzw
  | V4_multiply xyzw
  | V4_multiplyScalar real
  | V4_divide xyzw
  | V4_divideScalar real
  | V4_applyMatrix4 matrix
  | V4_setAxisAngleFromQuaternion xyzw
  | V4_setAxisAngleFromRotationMatrix matrix
  | V4_normalize
  | V4_setLength real
  | V4_lerp xyzw real
  | V4_lerpVectors xyzw xyzw real
  | V4_clamp xyzw xyzw
  | V4_clampScalar real real
  | V4_clampLength real real
  | V4_floor
  | V4_ceil
  | V4_round
  | V4_roundToZero
  | V4_negate
  | V4_fromArray js_array nat
  | V4_fromBufferAttribute bufferAttribute nat
  | V4_random real real real real

primrec Vector4_mutate ::
  "addr \<Rightarrow> v4_call \<Rightarrow> vector4 world \<Rightarrow> vector4 result" where
  "Vector4_mutate a (V4_set p1 p2 p3 p4) =
     Vector4_set a p1 p2 p3 p4"
| "Vector4_mutate a (V4_setScalar p1) =
     Vector4_setScalar a p1"
| "Vector4_mutate a (V4_setX p1) =
     Vector4_setX a p1"
| "Vector4_mutate a (V4_setY p1) =
     Vector4_setY a p1"
| "Vector4_mutate a (V4_setZ p1) =
     Vector4_setZ a p1"
| "Vector4_mutate a (V4_setW p1) =
     Vector4_setW a p1"
| "Vector4_mutate a (V4_setComponent p1 p2) =
     Vector4_setComponent a p1 p2"
| "Vector4_mutate a (V4_copy p1) =
     Vector4_copy a p1"
| "Vector4_mutate a (V4_add p1) =
     Vector4_add a p1"
| "Vector4_mutate a (V4_addScalar p1) =
     Vector4_addScalar a p1"
| "Vector4_mutate a (V4_addVectors p1 p2) =
     Vector4_addVectors a p1 p2"
| "Vector4_mutate a (V4_addScaledVector p1 p2) =
     Vector4_addScaledVector a p1 p2"
| "Vector4_mutate a (V4_sub p1) =
     Vector4_sub a p1"
| "Vector4_mutate a (V4_subScalar p1) =
     Vector4_subScalar a p1"
| "Vector4_mutate a (V4_subVectors p1 p2) =
     Vector4_subVectors a p1 p2"
| "Vector4_mutate a (V4_multiply p1) =
     Vector4_multiply a p1"
| "Vector4_mutate a (V4_multiplyScalar p1) =
     Vector4_multiplyScalar a p1"
| "Vector4_mutate a (V4_divide p1) =
     Vector4_divide a p1"
| "Vector4_mutate a (V4_divideScalar p1) =
     Vector4_divideScalar a p1"
| "Vector4_mutate a (V4_applyMatrix4 p1) =
     Vector4_applyMatrix4 a p1"
| "Vector4_mutate a (V4_setAxisAngleFromQuaternion p1) =
     Vector4_setAxisAngleFromQuaternion a p1"
| "Vector4_mutate a (V4_setAxisAngleFromRotationMatrix p1) =
     Vector4_setAxisAngleFromRotationMatrix a p1"
| "Vector4_mutate a V4_normalize =
     Vector4_normalize a"
| "Vector4_mutate a (V4_setLength p1) =
     Vector4_setLength a p1"
| "Vector4_mutate a (V4_lerp p1 p2) =
     Vector4_lerp a p1 p2"
| "Vector4_mutate a (V4_lerpVectors p1 p2 p3) =
     Vector4_lerpVectors a p1 p2 p3"
| "Vector4_mutate a (V4_clamp p1 p2) =
     Vector4_clamp a p1 p2"
| "Vector4_mutate a (V4_clampScalar p1 p2) =
     Vector4_clampScalar a p1 p2"
| "Vector4_mutate a (V4_clampLength p1 p2) =
     Vector4_clampLength a p1 p2"
| "Vector4_mutate a V4_floor =
     Vector4_floor a"
| "Vector4_mutate a V4_ceil =
     Vector4_ceil a"
| "Vector4_mutate a V4_round =
     Vector4_round a"
| "Vector4_mutate a V4_roundToZero =
     Vector4_roundToZero a"
| "Vector4_mutate a V4_negate =
     Vector4_negate a"
| "Vector4_mutate a (V4_fromArray p1 p2) =
     Vector4_fromArray a p1 p2"
| "Vector4_mutate a (V4_fromBufferAttribute p1 p2) =
     Vector4_fromBufferAttribute a p1 p2"
| "Vector4_mutate a (V4_random p1 p2 p3 p4) =
     Vector4_random a p1 p2 p3 p4"

datatype v4_query =
    V4q_equals xyzw
  | V4q_lengthSq
  | V4q_length
  | V4q_manhattanLength
  | V4q_dot xyzw
  | V4q_iterator

primrec Vector4_ask :: "addr \<Rightarrow> v4_query \<Rightarrow> vector4 world \<Rightarrow> qval \<times> vector4 world" where
  "Vector4_ask a (V4q_equals p1) st =
     (case Vector4_equals a p1 st of (v, st1) \<Rightarrow> (Boolean v, st1))"
| "Vector4_ask a V4q_lengthSq st =
     (case Vector4_lengthSq a st of (v, st1) \<Rightarrow> (Number v, st1))"
| "Vector4_ask a V4q_length st =
     (case Vector4_length a st of (v, st1) \<Rightarrow> (Number v, st1))"
| "Vector4_ask a V4q_manhattanLength st =
     (case Vector4_manhattanLength a st of (v, st1) \<Rightarrow> (Number v, st1))"
| "Vector4_ask a (V4q_dot p1) st =
     (case Vector4_dot a p1 st of (v, st1) \<Rightarrow> (Number v, st1))"
| "Vector4_ask a V4q_iterator st =
     (case Vector4_iterator a st of (v, st1) \<Rightarrow> (Numbers v, st1))"

datatype v2_call =
    V2_set real real
  | V2_setScalar real
  | V2_setX real
  | V2_setY real
  | V2_setComponent int real
  | V2_copy xy
  | V2_add xy
  | V2_addScalar real
  | V2_addVectors xy xy
  | V2_addScaledVector xy real
  | V2_sub xy
  | V2_subScalar real
  | V2_subVectors xy xy
  | V2_multiply xy
  | V2_multiplyScalar real
  | V2_divide xy
  | V2_divideScalar real
  | V2_applyMatrix3 matrix
  | V2_rotateAround xy real
  | V2_normalize
  | V2_setLength real
  | V2_clamp xy xy
  | V2_clampScalar real real
  | V2_clampLength real real
  | V2_floor
  | V2_ceil
  | V2_round
  | V2_roundToZero
  | V2_negate
  | V2_fromArray js_array nat
  | V2_fromBufferAttribute bufferAttribute nat
  | V2_random real real

primrec Vector2_mutate ::
  "addr \<Rightarrow> v2_call \<Rightarrow> vector2 world \<Rightarrow> vector2 result" where
  "Vector2_mutate a (V2_set p1 p2) =
     Vector2_set a p1 p2"
| "Vector2_mutate a (V2_setScalar p1) =
     Vector2_setScalar a p1"
| "Vector2_mutate a (V2_setX p1) =
     Vector2_setX a p1"
| "Vector2_mutate a (V2_setY p1) =
     Vector2_setY a p1"
| "Vector2_mutate a (V2_setComponent p1 p2) =
     Vector2_setComponent a p1 p2"
| "Vector2_mutate a (V2_copy p1) =
     Vector2_copy a p1"
| "Vector2_mutate a (V2_add p1) =
     Vector2_add a p1"
| "Vector2_mutate a (V2_addScalar p1) =
     Vector2_addScalar a p1"
| "Vector2_mutate a (V2_addVectors p1 p2) =
     Vector2_addVectors a p1 p2"
| "Vector2_mutate a (V2_addScaledVector p1 p2) =
     Vector2_addScaledVector a p1 p2"
| "Vector2_mutate a (V2_sub p1) =
     Vector2_sub a p1"
| "Vector2_mutate a (V2_subScalar p1) =
     Vector2_subScalar a p1"
| "Vector2_mutate a (V2_subVectors p1 p2) =
     Vector2_subVectors a p1 p2"
| "Vector2_mutate a (V2_multiply p1) =
     Vector2_multiply a p1"
| "Vector2_mutate a (V2_multiplyScalar p1) =
     Vector2_multiplyScalar a p1"
| "Vector2_mutate a (V2_divide p1) =
     Vector2_divide a p1"
| "Vector2_mutate a (V2_divideScalar p1) =
     Vector2_divideScalar a p1"
| "Vector2_mutate a (V2_applyMatrix3 p1) =
     Vector2_applyMatrix3 a p1"
| "Vector2_mutate a (V2_rotateAround p1 p2) =
     Vector2_rotateAround a p1 p2"
| "Vector2_mutate a V2_normalize =
     Vector2_normalize a"
| "Vector2_mutate a (V2_setLength p1) =
     Vector2_setLength a p1"
| "Vector2_mutate a (V2_clamp p1 p2) =
     Vector2_clamp a p1 p2"
| "Vector2_mutate a (V2_clampScalar p1 p2) =
     Vector2_clampScalar a p1 p2"
| "Vector2_mutate a (V2_clampLength p1 p2) =
     Vector2_clampLength a p1 p2"
| "Vector2_mutate a V2_floor =
     Vector2_floor a"
| "Vector2_mutate a V2_ceil =
     Vector2_ceil a"
| "Vector2_mutate a V2_round =
     Vector2_round a"
| "Vector2_mutate a V2_roundToZero =
     Vector2_roundToZero a"
| "Vector2_mutate a V2_negate =
     Vector2_negate a"
| "Vector2_mutate a (V2_fromArray p1 p2) =
     Vector2_fromArray a p1 p2"
| "Vector2_mutate a (V2_fromBufferAttribute p1 p2) =
     Vector2_fromBufferAttribute a p1 p2"
| "Vector2_mutate a (V2_random p1 p2) =
     Vector2_random a p1 p2"

datatype v2_query =
    V2q_equals xy
  | V2q_lengthSq
  | V2q_length
  | V2q_manhattanLength
  | V2q_dot xy
  | V2q_cross xy
  | V2q_angleTo xy
  | V2q_distanceTo xy
  | V2q_distanceToSquared xy
  | V2q_manhattanDistanceTo xy
  | V2q_iterator

primrec Vector2_ask :: "addr \<Rightarrow> v2_query \<Rightarrow> vector2 world \<Rightarrow> qval \<times> vector2 world" where
  "Vector2_ask a (V2q_equals p1) st =
     (case Vector2_equals a p1 st of (v, st1) \<Rightarrow> (Boolean v, st1))"
| "Vector2_ask a V2q_lengthSq st =
     (case Vector2_lengthSq a st of (v, st1) \<Rightarrow> (Number v, st1))"
| "Vector2_ask a V2q_length st =
     (case Vector2_length a st of (v, st1) \<Rightarrow> (Number v, st1))"
| "Vector2_ask a V2q_manhattanLength st =
     (case Vector2_manhattanLength a st of (v, st1) \<Rightarrow> (Number v, st1))"
| "Vector2_ask a (V2q_dot p1) st =
     (case Vector2_dot a p1 st of (v, st1) \<Rightarrow> (Number v, st1))"
| "Vector2_ask a (V2q_cross p1) st =
     (case Vector2_cross a p1 st of (v, st1) \<Rightarrow> (Number v, st1))"
| "Vector2_ask a (V2q_angleTo p1) st =
     (case Vector2_angleTo a p1 st of (v, st1) \<Rightarrow> (Number v, st1))"
| "Vector2_ask a (V2q_distanceTo p1) st =
     (case Vector2_distanceTo a p1 st of (v, st1) \<Rightarrow> (Number v, st1))"
| "Vector2_ask a (V2q_distanceToSquared p1) st =
     (case Vector2_distanceToSquared a p1 st of (v, st1) \<Rightarrow> (Number v, st1))"
| "Vector2_ask a (V2q_manhattanDistanceTo p1) st =
     (case Vector2_manhattanDistanceTo a p1 st of (v, st1) \<Rightarrow> (Number v, st1))"
| "Vector2_ask a V2q_iterator st =
     (case Vector2_iterator a st of (v, st1) \<Rightarrow> (Numbers v, st1))"

section \<open>Chained mutators and rotation matrices\<close>






text \<open>
  The matrix of the rotation by the angle \<open>ang\<close> about the unit axis \<open>n\<close>
  (Rodrigues' formula), as a 4x4 matrix in the column-major layout of \<open>elements\<close>.
  It states what a pure rotation matrix is; no method computes it.
\<close>

definition rotation_elements :: "'m xyz_scheme \<Rightarrow> real \<Rightarrow> real list" where
  "rotation_elements n ang =
     (let c = cos ang; s = sin ang; t = 1 - c;
          nx = x n; ny = y n; nz = z n
      in [t * nx * nx + c, t * nx * ny + s * nz, t * nx * nz - s * ny, 0,
          t * nx * ny - s * nz, t * ny * ny + c, t * ny * nz + s * nx, 0,
          t * nx * nz + s * ny, t * ny * nz - s * nx, t * nz * nz + c, 0,
          0, 0, 0, 1])"

definition of_list :: "real list \<Rightarrow> js_array" where
  "of_list xs = (\<lambda>i. if i < length xs then Some (xs ! i) else None)"

definition rotation_matrix :: "'m xyz_scheme \<Rightarrow> real \<Rightarrow> matrix" where
  "rotation_matrix n ang = \<lparr>elements = of_list (rotation_elements n ang)\<rparr>"

text \<open>The sum of the diagonal of the upper left 3x3 block.\<close>

definition trace3 :: "js_array \<Rightarrow> real" where
  "trace3 te = num_at te 0 + num_at te 5 + num_at te 10"

section \<open>Basic facts about the state\<close>

lemma heap_upd [simp]: "heap (upd a f st) = (heap st)(a := f (heap st a))"
  by (simp add: upd_def)

lemma calls_upd [simp]: "calls (upd a f st) = calls st"
  by (simp add: upd_def)

text \<open>What \<open>#markDirty\<close> does to the heap and to the record of observer calls.\<close>

lemma heap_Vector2_markDirty [simp]:
  "heap (Vector2_markDirty a st) = (heap st)(a := (heap st a)\<lparr>vector2.isDirty := True\<rparr>)"
  by (simp add: Vector2_markDirty_def Let_def split: option.splits)

lemma calls_Vector2_markDirty [simp]:
  "calls (Vector2_markDirty a st) =
     calls st @ (case vector2.onChange (heap st a) of Some f \<Rightarrow> [(f, a)] | None \<Rightarrow> [])"
  by (simp add: Vector2_markDirty_def Let_def split: option.splits)

lemma heap_Vector3_markDirty [simp]:
  "heap (Vector3_markDirty a st) = (heap st)(a := (heap st a)\<lparr>vector3.isDirty := True\<rparr>)"
  by (simp add: Vector3_markDirty_def Let_def split: option.splits)

lemma calls_Vector3_markDirty [simp]:
  "calls (Vector3_markDirty a st) =
     calls st @ (case vector3.onChange (heap st a) of Some f \<Rightarrow> [(f, a)] | None \<Rightarrow> [])"
  by (simp add: Vector3_markDirty_def Let_def split: option.splits)

lemma heap_Vector4_markDirty [simp]:
  "heap (Vector4_markDirty a st) = (heap st)(a := (heap st a)\<lparr>vector4.isDirty := True\<rparr>)"
  by (simp add: Vector4_markDirty_def Let_def split: option.splits)

lemma calls_Vector4_markDirty [simp]:
  "calls (Vector4_markDirty a st) =
     calls st @ (case vector4.onChange (heap st a) of Some f \<Rightarrow> [(f, a)] | None \<Rightarrow> [])"
  by (simp add: Vector4_markDirty_def Let_def split: option.splits)

text \<open>Arrays given by the list of their elements, and a root used in the examples.\<close>

lemma num_at_of_list [simp]: "i < length xs \<Longrightarrow> num_at (of_list xs) i = xs ! i"
  by (simp add: num_at_def of_list_def)

lemma defined_at_of_list [simp]:
  "defined_at (of_list xs) ixs = list_all (\<lambda>i. i < length xs) ixs"
  by (simp add: defined_at_def of_list_def)

lemma sqrt_25: "sqrt 25 = 5"
  using real_sqrt_abs [of 5] by simp

text \<open>The definitions of the methods, by class.\<close>

lemmas Vector2_defs =
  Vector2_constructor_def Vector2_set_def Vector2_setScalar_def Vector2_setX_def
  Vector2_setY_def Vector2_setComponent_def Vector2_getComponent_def Vector2_copy_def
  Vector2_add_def Vector2_addScalar_def Vector2_addVectors_def Vector2_addScaledVector_def
  Vector2_sub_def Vector2_subScalar_def Vector2_subVectors_def Vector2_multiply_def
  Vector2_multiplyScalar_def Vector2_divide_def Vector2_divideScalar_def
  Vector2_lengthSq_def Vector2_length_def Vector2_manhattanLength_def Vector2_normalize_def
  Vector2_setLength_def Vector2_applyMatrix3_def Vector2_rotateAround_def Vector2_dot_def
  Vector2_cross_def Vector2_angleTo_def Vector2_distanceToSquared_def
  Vector2_distanceTo_def Vector2_manhattanDistanceTo_def Vector2_clamp_def
  Vector2_clampScalar_def Vector2_clampLength_def Vector2_floor_def Vector2_ceil_def
  Vector2_round_def Vector2_roundToZero_def Vector2_negate_def Vector2_equals_def
  Vector2_fromArray_def Vector2_toArray_def Vector2_fromBufferAttribute_def
  Vector2_random_def Vector2_iterator_def

lemmas Vector3_defs =
  Vector3_constructor_def Vector3_set_def Vector3_setScalar_def Vector3_setX_def
  Vector3_setY_def Vector3_setZ_def Vector3_setComponent_def Vector3_getComponent_def
  Vector3_copy_def Vector3_add_def Vector3_addScalar_def Vector3_addVectors_def
  Vector3_addScaledVector_def Vector3_sub_def Vector3_subScalar_def Vector3_subVectors_def
  Vector3_multiply_def Vector3_multiplyScalar_def Vector3_multiplyVectors_def
  Vector3_divide_def Vector3_divideScalar_def Vector3_lengthSq_def Vector3_length_def
  Vector3_manhattanLength_def Vector3_normalize_def Vector3_setLength_def
  Vector3_applyQuaternion_def Vector3_applyEuler_def Vector3_applyAxisAngle_def
  Vector3_applyMatrix3_def Vector3_applyNormalMatrix_def Vector3_applyMatrix4_def
  Vector3_transformDirection_def Vector3_project_def Vector3_unproject_def Vector3_lerp_def
  Vector3_lerpVectors_def Vector3_clamp_def Vector3_clampScalar_def Vector3_clampLength_def
  Vector3_floor_def Vector3_ceil_def Vector3_round_def Vector3_roundToZero_def
  Vector3_negate_def Vector3_dot_def Vector3_crossVectors_def Vector3_cross_def
  Vector3_angleTo_def Vector3_distanceToSquared_def Vector3_distanceTo_def
  Vector3_manhattanDistanceTo_def Vector3_projectOnVector_def Vector3_projectOnPlane_def
  Vector3_reflect_def Vector3_setFromSphericalCoords_def Vector3_setFromSpherical_def
  Vector3_setFromCylindricalCoords_def Vector3_setFromCylindrical_def
  Vector3_setFromMatrixPosition_def Vector3_equals_def Vector3_fromArray_def
  Vector3_toArray_def Vector3_setFromMatrixColumn_def Vector3_setFromMatrix3Column_def
  Vector3_setFromMatrixScale_def Vector3_setFromEuler_def Vector3_setFromColor_def
  Vector3_fromBufferAttribute_def Vector3_random_def Vector3_randomDirection_def
  Vector3_iterator_def

lemmas Vector4_defs =
  Vector4_constructor_def Vector4_set_def Vector4_setScalar_def Vector4_setX_def
  Vector4_setY_def Vector4_setZ_def Vector4_setW_def Vector4_setComponent_def
  Vector4_getComponent_def Vector4_copy_def Vector4_add_def Vector4_addScalar_def
  Vector4_addVectors_def Vector4_addScaledVector_def Vector4_sub_def Vector4_subScalar_def
  Vector4_subVectors_def Vector4_multiply_def Vector4_multiplyScalar_def Vector4_divide_def
  Vector4_divideScalar_def Vector4_lengthSq_def Vector4_length_def
  Vector4_manhattanLength_def Vector4_normalize_def Vector4_setLength_def
  Vector4_applyMatrix4_def Vector4_setAxisAngleFromQuaternion_def
  Vector4_setAxisAngleFromRotationMatrix_def Vector4_lerp_def Vector4_lerpVectors_def
  Vector4_clamp_def Vector4_clampScalar_def Vector4_clampLength_def Vector4_floor_def
  Vector4_ceil_def Vector4_round_def Vector4_roundToZero_def Vector4_negate_def
  Vector4_dot_def Vector4_equals_def Vector4_fromArray_def Vector4_toArray_def
  Vector4_fromBufferAttribute_def Vector4_random_def Vector4_iterator_def
section \<open>Quantisation: scale factors and the signed floor\<close>

text \<open>
  C5, as the source has it: Float32Array passes the number through; the unsigned
  encodings scale by 255, 65535 and 4294967295 and the signed ones by 127, 32767 and
  2147483647 (normalize multiplies and rounds, denormalize divides, the signed branches
  then taking the maximum with -1); every other constructor raises the
  unsupported-encoding error in both functions.
\<close>

theorem normalize_denormalize_scale_factors:
  "MathUtils_normalize v Float32Array = Inr v
   \<and> MathUtils_normalize v Uint8Array = Inr (Math_round (v * 255))
   \<and> MathUtils_normalize v Uint16Array = Inr (Math_round (v * 65535))
   \<and> MathUtils_normalize v Uint32Array = Inr (Math_round (v * 4294967295))
   \<and> MathUtils_normalize v Int8Array = Inr (Math_round (v * 127))
   \<and> MathUtils_normalize v Int16Array = Inr (Math_round (v * 32767))
   \<and> MathUtils_normalize v Int32Array = Inr (Math_round (v * 2147483647))
   \<and> MathUtils_normalize v OtherArray = Inl UnsupportedEncoding
   \<and> MathUtils_denormalize v Float32Array = Inr v
   \<and> MathUtils_denormalize v Uint8Array = Inr (v / 255)
   \<and> MathUtils_denormalize v Uint16Array = Inr (v / 65535)
   \<and> MathUtils_denormalize v Uint32Array = Inr (v / 4294967295)
   \<and> MathUtils_denormalize v Int8Array = Inr (max (v / 127) (- 1))
   \<and> MathUtils_denormalize v Int16Array = Inr (max (v / 32767) (- 1))
   \<and> MathUtils_denormalize v Int32Array = Inr (max (v / 2147483647) (- 1))
   \<and> MathUtils_denormalize v OtherArray = Inl UnsupportedEncoding"
  by simp

text \<open>
  The instance of C5 at the value 1: the signed 8-bit encoding of 1 is 127, and 1 is
  what 127 decodes to.
\<close>

theorem normalize_denormalize_scale_factors_witness:
  "MathUtils_normalize 1 Int8Array = Inr 127
   \<and> MathUtils_denormalize 127 Int8Array = Inr 1
   \<and> MathUtils_normalize 1 OtherArray = Inl UnsupportedEncoding"
  using normalize_denormalize_scale_factors [of 1] normalize_denormalize_scale_factors [of 127]
  by (simp add: Math_round_def)

text \<open>
  C5 as the specification words it gives the signed 8-bit encoding the scale factor
  255. The source scales by 127 there: 1 is encoded as 127, not as 255.
\<close>

theorem normalize_int8_scale_counterexample:
  "MathUtils_normalize 1 Int8Array \<noteq> Inr (Math_round (1 * 255))"
  by (simp add: Math_round_def)

text \<open>
  C6: on every integer input the three signed encodings decode to the quotient or to
  -1, whichever is larger, so never below -1; the three unsigned encodings decode to
  the plain quotient, which an input below minus the scale factor takes below -1.
\<close>

theorem denormalize_signed_floor:
  fixes n :: int
  shows
  "MathUtils_denormalize (of_int n) Int8Array = Inr (max (of_int n / 127) (- 1))
   \<and> MathUtils_denormalize (of_int n) Int16Array = Inr (max (of_int n / 32767) (- 1))
   \<and> MathUtils_denormalize (of_int n) Int32Array = Inr (max (of_int n / 2147483647) (- 1))
   \<and> (\<forall>enc r. enc \<in> {Int8Array, Int16Array, Int32Array}
          \<and> MathUtils_denormalize (of_int n) enc = Inr r \<longrightarrow> - 1 \<le> r)
   \<and> MathUtils_denormalize (of_int n) Uint8Array = Inr (of_int n / 255)
   \<and> MathUtils_denormalize (of_int n) Uint16Array = Inr (of_int n / 65535)
   \<and> MathUtils_denormalize (of_int n) Uint32Array = Inr (of_int n / 4294967295)
   \<and> (n < - 255 \<longrightarrow> real_of_int n / 255 < - 1)
   \<and> (n < - 65535 \<longrightarrow> real_of_int n / 65535 < - 1)
   \<and> (n < - 4294967295 \<longrightarrow> real_of_int n / 4294967295 < - 1)"
  by auto

theorem denormalize_signed_floor_witness:
  "MathUtils_denormalize (- 4294967296) Int8Array = Inr (- 1)
   \<and> MathUtils_denormalize (- 4294967296) Int16Array = Inr (- 1)
   \<and> MathUtils_denormalize (- 4294967296) Int32Array = Inr (- 1)
   \<and> (\<exists>r. MathUtils_denormalize (- 4294967296) Uint8Array = Inr r \<and> r < - 1)
   \<and> (\<exists>r. MathUtils_denormalize (- 4294967296) Uint16Array = Inr r \<and> r < - 1)
   \<and> (\<exists>r. MathUtils_denormalize (- 4294967296) Uint32Array = Inr r \<and> r < - 1)"
  using denormalize_signed_floor [of "- 4294967296"]
  by simp

section \<open>The dirty flag and the observer\<close>










section \<open>What the mutators return\<close>

text \<open>
  Every mutator of Vector3 that returns, returns its receiver, except
  \<open>projectOnPlane\<close> and \<open>reflect\<close>, which return \<open>undefined\<close>. The mutators
  of Vector2 and Vector4 all return their receiver.
\<close>

lemma Vector2_mutate_returns:
  "Vector2_mutate a c st = Inr (r, st') \<Longrightarrow> r = Ref a"
  by (cases c) (auto simp: Vector2_defs call_on_def query_on_def Let_def
       split: if_splits sum.splits jsval.splits prod.splits)

lemma Vector3_mutate_returns:
  "Vector3_mutate setFromEuler setFromAxisAngle sv a c st = Inr (r, st') \<Longrightarrow>
   r = (case c of V3_projectOnPlane n \<Rightarrow> Undefined | V3_reflect n \<Rightarrow> Undefined | _ \<Rightarrow> Ref a)"
  by (cases c) (auto simp: Vector3_defs call_on_def query_on_def Let_def
       split: if_splits sum.splits jsval.splits prod.splits)

lemma Vector4_mutate_returns:
  "Vector4_mutate a c st = Inr (r, st') \<Longrightarrow> r = Ref a"
  by (cases c) (auto simp: Vector4_defs call_on_def query_on_def Let_def
       split: if_splits sum.splits jsval.splits prod.splits)

text \<open>
  C2 at a concrete input. The vector \<open>(1, 2, 3)\<close> is at address 0, with observer 7;
  the scratch vector is at address 1. \<open>projectOnPlane\<close> and \<open>reflect\<close> with the
  normal \<open>(0, 1, 0)\<close> mutate the vector, to \<open>(1, 0, 3)\<close> and to \<open>(1, -2, 3)\<close>,
  call the observer twice, and return \<open>undefined\<close>, not the vector.
\<close>

theorem projectOnPlane_reflect_return_undefined:
  "(\<exists>st'. Vector3_projectOnPlane 1 0 \<lparr>x = 0, y = 1, z = 0\<rparr>
       \<lparr>heap = (\<lambda>_. Vector3_constructor 0 0 0)
                 (0 := (Vector3_constructor 1 2 3)\<lparr>vector3.onChange := Some 7\<rparr>),
        calls = []\<rparr> = Inr (Undefined, st')
     \<and> calls st' = [(7, 0), (7, 0)]
     \<and> x (heap st' 0) = 1 \<and> y (heap st' 0) = 0 \<and> z (heap st' 0) = 3)
   \<and> (\<exists>st'. Vector3_reflect 1 0 \<lparr>x = 0, y = 1, z = 0\<rparr>
       \<lparr>heap = (\<lambda>_. Vector3_constructor 0 0 0)
                 (0 := (Vector3_constructor 1 2 3)\<lparr>vector3.onChange := Some 7\<rparr>),
        calls = []\<rparr> = Inr (Undefined, st')
     \<and> calls st' = [(7, 0), (7, 0)]
     \<and> x (heap st' 0) = 1 \<and> y (heap st' 0) = - 2 \<and> z (heap st' 0) = 3)"
  by (simp add: Vector3_defs call_on_def xyz_lengthSq_def)

section \<open>Queries\<close>

text \<open>
  C9: \<open>equals\<close>, \<open>lengthSq\<close>, \<open>length\<close>, \<open>manhattanLength\<close>, \<open>dot\<close>,
  \<open>cross\<close> of Vector2, \<open>angleTo\<close>, the three distance queries and the iteration
  over the components return the state they were called in: the heap, and with it the
  dirty flag of every vector, and the record of observer calls are unchanged.
\<close>

theorem queries_are_pure:
  "snd (Vector2_ask a q2 s2) = s2
   \<and> snd (Vector3_ask a q3 s3) = s3
   \<and> snd (Vector4_ask a q4 s4) = s4
   \<and> vector2.isDirty (heap (snd (Vector2_ask a q2 s2)) b) = vector2.isDirty (heap s2 b)
   \<and> vector3.isDirty (heap (snd (Vector3_ask a q3 s3)) b) = vector3.isDirty (heap s3 b)
   \<and> vector4.isDirty (heap (snd (Vector4_ask a q4 s4)) b) = vector4.isDirty (heap s4 b)
   \<and> calls (snd (Vector2_ask a q2 s2)) = calls s2
   \<and> calls (snd (Vector3_ask a q3 s3)) = calls s3
   \<and> calls (snd (Vector4_ask a q4 s4)) = calls s4"
proof -
  have 2: "snd (Vector2_ask a q2 s2) = s2"
    by (cases q2) (simp_all add: Vector2_defs Let_def split: prod.splits)
  have 3: "snd (Vector3_ask a q3 s3) = s3"
    by (cases q3) (simp_all add: Vector3_defs Let_def split: prod.splits)
  have 4: "snd (Vector4_ask a q4 s4) = s4"
    by (cases q4) (simp_all add: Vector4_defs Let_def split: prod.splits)
  show ?thesis
    by (simp add: 2 3 4)
qed

section \<open>Normalisation\<close>







section \<open>The flat-array encoding\<close>


section \<open>setFromMatrixScale\<close>

text \<open>
  C10: when the nine elements of the first three columns that \<open>setFromMatrixScale\<close>
  reads are numbers, the call returns the vector with \<open>x = e[8]\<close>, \<open>y = e[9]\<close> and
  \<open>z\<close> the Euclidean length of \<open>(e[8], e[9], e[10])\<close>: the lengths of the first and
  second column, assigned to \<open>x\<close> and \<open>y\<close> on the way, are overwritten by the
  third \<open>setFromMatrixColumn\<close>.
\<close>

theorem setFromMatrixScale_third_column:
  assumes "defined_at (elements m) [0, 1, 2, 4, 5, 6, 8, 9, 10]"
  shows "\<exists>st'. Vector3_setFromMatrixScale a m st = Inr (Ref a, st')
     \<and> x (heap st' a) = num_at (elements m) 8
     \<and> y (heap st' a) = num_at (elements m) 9
     \<and> z (heap st' a) =
         sqrt (num_at (elements m) 8 * num_at (elements m) 8
             + num_at (elements m) 9 * num_at (elements m) 9
             + num_at (elements m) 10 * num_at (elements m) 10)"
proof -
  from assms have "elements m (Suc (Suc 0)) \<noteq> None"
    by (simp add: defined_at_def numeral_2_eq_2)
  with assms show ?thesis
    by (simp add: Vector3_setFromMatrixScale_def Vector3_setFromMatrixColumn_def
        Vector3_fromArray_def Vector3_length_def Vector3_lengthSq_def xyz_lengthSq_def
        query_on_def defined_at_def)
qed

text \<open>
  The instance of C10 for the matrix with the columns \<open>(2, 0, 0)\<close>, \<open>(0, 3, 0)\<close>
  and \<open>(3, 4, 0)\<close>, of lengths 2, 3 and 5: the vector is set to \<open>(3, 4, 5)\<close>.
\<close>

theorem setFromMatrixScale_third_column_witness:
  "\<exists>st'. Vector3_setFromMatrixScale 0
       \<lparr>elements = of_list [2, 0, 0, 0, 0, 3, 0, 0, 3, 4, 0, 0, 0, 0, 0, 1]\<rparr>
       \<lparr>heap = (\<lambda>_. Vector3_constructor 0 0 0), calls = []\<rparr> = Inr (Ref 0, st')
     \<and> x (heap st' 0) = 3 \<and> y (heap st' 0) = 4 \<and> z (heap st' 0) = 5"
  using setFromMatrixScale_third_column
    [of "\<lparr>elements = of_list [2, 0, 0, 0, 0, 3, 0, 0, 3, 4, 0, 0, 0, 0, 0, 1]\<rparr>" 0
        "\<lparr>heap = (\<lambda>_. Vector3_constructor 0 0 0), calls = []\<rparr>"]
  by (simp add: sqrt_25)

section \<open>Axis and angle from a quaternion\<close>

text \<open>
  C4, for every quaternion whose \<open>w\<close> lies in \<open>[-1, 1]\<close>, as that of a normalised
  quaternion does (outside this interval \<open>Math.acos\<close> is not a number):
  \<open>setAxisAngleFromQuaternion(q)\<close> returns the vector with \<open>w = 2 acos(q.w)\<close>
  and, for \<open>s = sqrt(1 - q.w * q.w)\<close>, with the axis \<open>(1, 0, 0)\<close> when
  \<open>s < 0.0001\<close> and the axis \<open>(q.x / s, q.y / s, q.z / s)\<close> otherwise. When
  \<open>q.w\<close> is 1, as for the identity quaternion, the axis is \<open>(1, 0, 0)\<close> and the
  angle 0.
\<close>

theorem setAxisAngleFromQuaternion_axis_angle:
  assumes "- 1 \<le> w q" and "w q \<le> 1"
  shows "\<exists>st'. Vector4_setAxisAngleFromQuaternion a q st = Inr (Ref a, st')
     \<and> w (heap st' a) = 2 * arccos (w q)
     \<and> (sqrt (1 - w q * w q) < 1 / 10000 \<longrightarrow>
          x (heap st' a) = 1 \<and> y (heap st' a) = 0 \<and> z (heap st' a) = 0)
     \<and> (1 / 10000 \<le> sqrt (1 - w q * w q) \<longrightarrow>
          x (heap st' a) = x q / sqrt (1 - w q * w q)
          \<and> y (heap st' a) = y q / sqrt (1 - w q * w q)
          \<and> z (heap st' a) = z q / sqrt (1 - w q * w q))
     \<and> (w q = 1 \<longrightarrow>
          x (heap st' a) = 1 \<and> y (heap st' a) = 0 \<and> z (heap st' a) = 0
          \<and> w (heap st' a) = 0)"
proof (cases "sqrt (1 - w q * w q) < 1 / 10000")
  case True
  with assms show ?thesis
    by (auto simp: Vector4_setAxisAngleFromQuaternion_def Let_def)
next
  case False
  then have "w q \<noteq> 1"
    by auto
  with False assms show ?thesis
    by (auto simp: Vector4_setAxisAngleFromQuaternion_def Let_def)
qed

text \<open>
  Instances of C4: the identity quaternion \<open>(0, 0, 0, 1)\<close> gives the axis
  \<open>(1, 0, 0)\<close> and the angle 0; the quaternion \<open>(0, 0, 1, 0)\<close>, a half turn about
  the z axis, gives the axis \<open>(0, 0, 1)\<close> and the angle \<open>pi\<close>.
\<close>

theorem setAxisAngleFromQuaternion_axis_angle_witness:
  "(\<exists>st'. Vector4_setAxisAngleFromQuaternion 0 \<lparr>x = 0, y = 0, z = 0, w = 1\<rparr>
        \<lparr>heap = (\<lambda>_. Vector4_constructor 5 6 7 8), calls = []\<rparr> = Inr (Ref 0, st')
      \<and> x (heap st' 0) = 1 \<and> y (heap st' 0) = 0 \<and> z (heap st' 0) = 0
      \<and> w (heap st' 0) = 0)
   \<and> (\<exists>st'. Vector4_setAxisAngleFromQuaternion 0 \<lparr>x = 0, y = 0, z = 1, w = 0\<rparr>
        \<lparr>heap = (\<lambda>_. Vector4_constructor 5 6 7 8), calls = []\<rparr> = Inr (Ref 0, st')
      \<and> x (heap st' 0) = 0 \<and> y (heap st' 0) = 0 \<and> z (heap st' 0) = 1
      \<and> w (heap st' 0) = pi)"
  using
    setAxisAngleFromQuaternion_axis_angle
      [of "\<lparr>x = 0, y = 0, z = 0, w = 1\<rparr>" 0
          "\<lparr>heap = (\<lambda>_. Vector4_constructor 5 6 7 8), calls = []\<rparr>"]
    setAxisAngleFromQuaternion_axis_angle
      [of "\<lparr>x = 0, y = 0, z = 1, w = 0\<rparr>" 0
          "\<lparr>heap = (\<lambda>_. Vector4_constructor 5 6 7 8), calls = []\<rparr>"]
  by auto

section \<open>Axis and angle from a rotation matrix\<close>

text \<open>
  The entries of a rotation matrix, its trace \<open>1 + 2 cos(ang)\<close>, and the test
  for the identity: for a rotation matrix, the four comparisons of the source hold
  as soon as the trace is within \<open>0.1\<close> of 3, since the sums of the
  off-diagonal pairs are \<open>2 (1 - cos(ang)) n\<^sub>i n\<^sub>j\<close>.
\<close>

lemma length_rotation_elements [simp]: "length (rotation_elements n ang) = 16"
  by (simp add: rotation_elements_def Let_def)

lemma rotation_entries:
  "num_at (elements (rotation_matrix n ang)) 0 = (1 - cos ang) * x n * x n + cos ang"
  "num_at (elements (rotation_matrix n ang)) 1 = (1 - cos ang) * x n * y n + sin ang * z n"
  "num_at (elements (rotation_matrix n ang)) (Suc 0)
     = (1 - cos ang) * x n * y n + sin ang * z n"
  "num_at (elements (rotation_matrix n ang)) 2 = (1 - cos ang) * x n * z n - sin ang * y n"
  "num_at (elements (rotation_matrix n ang)) 4 = (1 - cos ang) * x n * y n - sin ang * z n"
  "num_at (elements (rotation_matrix n ang)) 5 = (1 - cos ang) * y n * y n + cos ang"
  "num_at (elements (rotation_matrix n ang)) 6 = (1 - cos ang) * y n * z n + sin ang * x n"
  "num_at (elements (rotation_matrix n ang)) 8 = (1 - cos ang) * x n * z n + sin ang * y n"
  "num_at (elements (rotation_matrix n ang)) 9 = (1 - cos ang) * y n * z n - sin ang * x n"
  "num_at (elements (rotation_matrix n ang)) 10 = (1 - cos ang) * z n * z n + cos ang"
  by (simp_all add: rotation_matrix_def) (simp_all add: rotation_elements_def Let_def)

lemma rotation_defined:
  "defined_at (elements (rotation_matrix n ang)) [0, 4, 8, 1, 5, 9, 2, 6, 10]"
  by (simp add: rotation_matrix_def)

lemma rotation_trace:
  assumes "x n * x n + y n * y n + z n * z n = 1"
  shows "trace3 (elements (rotation_matrix n ang)) = 1 + 2 * cos ang"
proof -
  have "trace3 (elements (rotation_matrix n ang))
      = (1 - cos ang) * (x n * x n + y n * y n + z n * z n) + 3 * cos ang"
    by (simp add: trace3_def rotation_entries algebra_simps)
  then show ?thesis
    using assms by simp
qed

lemma product_le_half:
  fixes p q :: real
  assumes "p * p + q * q \<le> 1"
  shows "\<bar>2 * (p * q)\<bar> \<le> 1"
proof -
  have "0 \<le> (p - q) * (p - q)" and "0 \<le> (p + q) * (p + q)"
    by simp_all
  then have "2 * (p * q) \<le> p * p + q * q" and "- (p * p + q * q) \<le> 2 * (p * q)"
    by (simp_all add: algebra_simps)
  with assms show ?thesis
    by linarith
qed

lemma rotation_near_identity:
  assumes unit: "x n * x n + y n * y n + z n * z n = 1"
  shows "near_identity (elements (rotation_matrix n ang))
     \<longleftrightarrow> \<bar>trace3 (elements (rotation_matrix n ang)) - 3\<bar> < 1 / 10"
proof
  assume "near_identity (elements (rotation_matrix n ang))"
  then show "\<bar>trace3 (elements (rotation_matrix n ang)) - 3\<bar> < 1 / 10"
    by (simp add: near_identity_def trace3_def)
next
  let ?t = "1 - cos ang"
  assume tr: "\<bar>trace3 (elements (rotation_matrix n ang)) - 3\<bar> < 1 / 10"
  then have t1: "?t < 1 / 20"
    by (simp add: rotation_trace [OF unit])
  have t0: "0 \<le> ?t"
    by simp
  have bound: "\<bar>?t * (2 * (p * q))\<bar> < 1 / 10" if "p * p + q * q \<le> 1" for p q :: real
  proof -
    have "\<bar>?t * (2 * (p * q))\<bar> = ?t * \<bar>2 * (p * q)\<bar>"
      using t0 by (simp add: abs_mult)
    also have "\<dots> \<le> ?t * 1"
      using t0 product_le_half [OF that] by (rule mult_left_mono [rotated])
    finally show ?thesis
      using t1 by simp
  qed
  have xy: "x n * x n + y n * y n \<le> 1" and xz: "x n * x n + z n * z n \<le> 1"
    and yz: "y n * y n + z n * z n \<le> 1"
    using unit
      zero_le_square [of "x n"] zero_le_square [of "y n"] zero_le_square [of "z n"]
    by linarith+
  have "\<bar>num_at (elements (rotation_matrix n ang)) 4
        + num_at (elements (rotation_matrix n ang)) 1\<bar> = \<bar>?t * (2 * (x n * y n))\<bar>"
    by (simp add: rotation_entries algebra_simps)
  moreover have "\<bar>num_at (elements (rotation_matrix n ang)) 8
        + num_at (elements (rotation_matrix n ang)) 2\<bar> = \<bar>?t * (2 * (x n * z n))\<bar>"
    by (simp add: rotation_entries algebra_simps)
  moreover have "\<bar>num_at (elements (rotation_matrix n ang)) 9
        + num_at (elements (rotation_matrix n ang)) 6\<bar> = \<bar>?t * (2 * (y n * z n))\<bar>"
    by (simp add: rotation_entries algebra_simps)
  ultimately show "near_identity (elements (rotation_matrix n ang))"
    using bound [OF xy] bound [OF xz] bound [OF yz] tr
    by (simp add: near_identity_def trace3_def)
qed

text \<open>
  C3, for the matrix of the rotation by any angle about any unit axis, with the names
  of the source: \<open>m11\<close>, ..., \<open>m33\<close> for the entries, \<open>xx\<close>, \<open>yy\<close>,
  \<open>zz\<close> for the three \<open>(m\<^sub>i\<^sub>i + 1) / 2\<close>, and \<open>s\<close> for the length of the
  skew-symmetric part, replaced by 1 when it is below \<open>0.001\<close>. The call returns
  the vector, and
  \<^item> when each off-diagonal pair differs by less than \<open>0.01\<close> and the trace is
    within \<open>0.1\<close> of 3, the vector is \<open>(1, 0, 0)\<close> with angle 0;
  \<^item> when each off-diagonal pair differs by less than \<open>0.01\<close> and the trace is
    not within \<open>0.1\<close> of 3, the angle is \<open>pi\<close> and the axis is computed from
    the largest of \<open>xx\<close>, \<open>yy\<close>, \<open>zz\<close>: its root for that component, and
    the off-diagonal sums over four times that root for the other two;
  \<^item> otherwise the axis is the skew-symmetric part divided by \<open>s\<close> and the angle
    is \<open>acos((trace - 1) / 2)\<close>.
\<close>

theorem setAxisAngleFromRotationMatrix_branches:
  fixes n :: "'m xyz_scheme" and ang :: real and a :: addr and st :: "vector4 world"
  defines "te \<equiv> elements (rotation_matrix n ang)"
  defines "m11 \<equiv> num_at te 0" and "m12 \<equiv> num_at te 4" and "m13 \<equiv> num_at te 8"
    and "m21 \<equiv> num_at te 1" and "m22 \<equiv> num_at te 5" and "m23 \<equiv> num_at te 9"
    and "m31 \<equiv> num_at te 2" and "m32 \<equiv> num_at te 6" and "m33 \<equiv> num_at te 10"
  defines "xx \<equiv> (m11 + 1) / 2" and "yy \<equiv> (m22 + 1) / 2" and "zz \<equiv> (m33 + 1) / 2"
  defines "s0 \<equiv> sqrt ((m32 - m23)\<^sup>2 + (m13 - m31)\<^sup>2 + (m21 - m12)\<^sup>2)"
  defines "s \<equiv> (if \<bar>s0\<bar> < 1 / 1000 then 1 else s0)"
  assumes unit: "x n * x n + y n * y n + z n * z n = 1"
  shows "\<exists>st'. Vector4_setAxisAngleFromRotationMatrix a (rotation_matrix n ang) st
         = Inr (Ref a, st')
     \<and> (near_symmetric te \<and> \<bar>m11 + m22 + m33 - 3\<bar> < 1 / 10 \<longrightarrow>
          x (heap st' a) = 1 \<and> y (heap st' a) = 0 \<and> z (heap st' a) = 0
          \<and> w (heap st' a) = 0)
     \<and> (near_symmetric te \<and> \<not> \<bar>m11 + m22 + m33 - 3\<bar> < 1 / 10 \<longrightarrow>
          w (heap st' a) = pi
          \<and> (xx > yy \<and> xx > zz \<longrightarrow>
               xx = max xx (max yy zz)
               \<and> x (heap st' a) = sqrt xx
               \<and> y (heap st' a) = (m12 + m21) / 4 / sqrt xx
               \<and> z (heap st' a) = (m13 + m31) / 4 / sqrt xx)
          \<and> (\<not> (xx > yy \<and> xx > zz) \<and> yy > zz \<longrightarrow>
               yy = max xx (max yy zz)
               \<and> x (heap st' a) = (m12 + m21) / 4 / sqrt yy
               \<and> y (heap st' a) = sqrt yy
               \<and> z (heap st' a) = (m23 + m32) / 4 / sqrt yy)
          \<and> (\<not> (xx > yy \<and> xx > zz) \<and> \<not> yy > zz \<longrightarrow>
               zz = max xx (max yy zz)
               \<and> x (heap st' a) = (m13 + m31) / 4 / sqrt zz
               \<and> y (heap st' a) = (m23 + m32) / 4 / sqrt zz
               \<and> z (heap st' a) = sqrt zz))
     \<and> (\<not> near_symmetric te \<longrightarrow>
          x (heap st' a) = (m32 - m23) / s
          \<and> y (heap st' a) = (m13 - m31) / s
          \<and> z (heap st' a) = (m21 - m12) / s
          \<and> w (heap st' a) = arccos ((m11 + m22 + m33 - 1) / 2))"
proof -
  let ?m = "rotation_matrix n ang"
  note defs = m11_def m12_def m13_def m21_def m22_def m23_def m31_def m32_def m33_def
  have d: "defined_at (elements ?m) [0, 4, 8, 1, 5, 9, 2, 6, 10]"
    by (rule rotation_defined)
  have tr: "m11 + m22 + m33 = 1 + 2 * cos ang"
    using rotation_trace [OF unit, of ang] by (simp add: trace3_def defs te_def)
  have nid: "near_identity te \<longleftrightarrow> \<bar>m11 + m22 + m33 - 3\<bar> < 1 / 10"
    using rotation_near_identity [OF unit, of ang] by (simp add: trace3_def defs te_def)
  have sum: "1 \<le> xx + yy + zz"
  proof -
    have "xx + yy + zz = (m11 + m22 + m33 + 3) / 2"
      by (simp add: xx_def yy_def zz_def field_simps)
    also have "\<dots> = 2 + cos ang"
      by (simp add: tr)
    finally show ?thesis
      using cos_ge_minus_one [of ang] by linarith
  qed
  have rng: "\<not> ((m11 + m22 + m33 - 1) / 2 < - 1 \<or> 1 < (m11 + m22 + m33 - 1) / 2)"
    by (simp add: tr not_less)
  note run = Vector4_setAxisAngleFromRotationMatrix_def Vector4_set_def Let_def
  consider
      (identity) "near_symmetric te" "near_identity te"
    | (half_x) "near_symmetric te" "\<not> near_identity te" "xx > yy \<and> xx > zz"
    | (half_y) "near_symmetric te" "\<not> near_identity te" "\<not> (xx > yy \<and> xx > zz)" "yy > zz"
    | (half_z) "near_symmetric te" "\<not> near_identity te" "\<not> (xx > yy \<and> xx > zz)" "\<not> yy > zz"
    | (skew) "\<not> near_symmetric te"
    by blast
  then show ?thesis
  proof cases
    case identity
    with nid have t: "\<bar>m11 + m22 + m33 - 3\<bar> < 1 / 10"
      by simp
    from identity d have "Vector4_setAxisAngleFromRotationMatrix a ?m st =
        Inr (Ref a, Vector4_markDirty a (Vector4_markDirty a
          (upd a (\<lambda>t. t\<lparr>x := 1, y := 0, z := 0, w := 0\<rparr>) st)))"
      by (simp add: run te_def)
    with identity t show ?thesis
      by simp
  next
    case half_x
    with nid have t: "\<not> \<bar>m11 + m22 + m33 - 3\<bar> < 1 / 10"
      by simp
    from half_x sum have p: "\<not> xx \<le> 0" and mx: "xx = max xx (max yy zz)"
      by linarith+
    from half_x d p have "Vector4_setAxisAngleFromRotationMatrix a ?m st =
        Inr (Ref a, Vector4_markDirty a (Vector4_markDirty a
          (upd a (\<lambda>t. t\<lparr>x := sqrt xx, y := (m12 + m21) / 4 / sqrt xx,
                         z := (m13 + m31) / 4 / sqrt xx, w := pi\<rparr>) st)))"
      unfolding xx_def yy_def zz_def defs te_def by (simp add: run)
    with half_x t mx show ?thesis
      by simp
  next
    case half_y
    with nid have t: "\<not> \<bar>m11 + m22 + m33 - 3\<bar> < 1 / 10"
      by simp
    from half_y sum have p: "\<not> yy \<le> 0" and mx: "yy = max xx (max yy zz)"
      by linarith+
    from half_y d p have "Vector4_setAxisAngleFromRotationMatrix a ?m st =
        Inr (Ref a, Vector4_markDirty a (Vector4_markDirty a
          (upd a (\<lambda>t. t\<lparr>x := (m12 + m21) / 4 / sqrt yy, y := sqrt yy,
                         z := (m23 + m32) / 4 / sqrt yy, w := pi\<rparr>) st)))"
      unfolding xx_def yy_def zz_def defs te_def by (simp add: run)
    with half_y t mx show ?thesis
      by simp
  next
    case half_z
    with nid have t: "\<not> \<bar>m11 + m22 + m33 - 3\<bar> < 1 / 10"
      by simp
    from half_z sum have p: "\<not> zz \<le> 0" and mx: "zz = max xx (max yy zz)"
      by linarith+
    from half_z d p have "Vector4_setAxisAngleFromRotationMatrix a ?m st =
        Inr (Ref a, Vector4_markDirty a (Vector4_markDirty a
          (upd a (\<lambda>t. t\<lparr>x := (m13 + m31) / 4 / sqrt zz, y := (m23 + m32) / 4 / sqrt zz,
                         z := sqrt zz, w := pi\<rparr>) st)))"
      unfolding xx_def yy_def zz_def defs te_def by (auto simp: run)
    with half_z t mx show ?thesis
      by simp
  next
    case skew
    from skew d rng have "Vector4_setAxisAngleFromRotationMatrix a ?m st =
        Inr (Ref a, Vector4_markDirty a
          (upd a (\<lambda>t. t\<lparr>x := (m32 - m23) / s, y := (m13 - m31) / s,
                         z := (m21 - m12) / s,
                         w := arccos ((m11 + m22 + m33 - 1) / 2)\<rparr>) st))"
      unfolding s_def s0_def defs te_def by (simp add: run)
    with skew show ?thesis
      by simp
  qed
qed

text \<open>
  Instances of C3: the identity matrix; the half turns about the x, y and z axes, one
  for each choice of the largest diagonal term; and the quarter turn about the z axis,
  whose matrix is not symmetric.
\<close>

theorem setAxisAngleFromRotationMatrix_branches_witness:
  "(\<exists>st'. Vector4_setAxisAngleFromRotationMatrix 0
        (rotation_matrix \<lparr>x = 0, y = 0, z = 1\<rparr> 0)
        \<lparr>heap = (\<lambda>_. Vector4_constructor 5 6 7 8), calls = []\<rparr> = Inr (Ref 0, st')
      \<and> x (heap st' 0) = 1 \<and> y (heap st' 0) = 0 \<and> z (heap st' 0) = 0
      \<and> w (heap st' 0) = 0)
   \<and> (\<exists>st'. Vector4_setAxisAngleFromRotationMatrix 0
        (rotation_matrix \<lparr>x = 1, y = 0, z = 0\<rparr> pi)
        \<lparr>heap = (\<lambda>_. Vector4_constructor 5 6 7 8), calls = []\<rparr> = Inr (Ref 0, st')
      \<and> x (heap st' 0) = 1 \<and> y (heap st' 0) = 0 \<and> z (heap st' 0) = 0
      \<and> w (heap st' 0) = pi)
   \<and> (\<exists>st'. Vector4_setAxisAngleFromRotationMatrix 0
        (rotation_matrix \<lparr>x = 0, y = 1, z = 0\<rparr> pi)
        \<lparr>heap = (\<lambda>_. Vector4_constructor 5 6 7 8), calls = []\<rparr> = Inr (Ref 0, st')
      \<and> x (heap st' 0) = 0 \<and> y (heap st' 0) = 1 \<and> z (heap st' 0) = 0
      \<and> w (heap st' 0) = pi)
   \<and> (\<exists>st'. Vector4_setAxisAngleFromRotationMatrix 0
        (rotation_matrix \<lparr>x = 0, y = 0, z = 1\<rparr> pi)
        \<lparr>heap = (\<lambda>_. Vector4_constructor 5 6 7 8), calls = []\<rparr> = Inr (Ref 0, st')
      \<and> x (heap st' 0) = 0 \<and> y (heap st' 0) = 0 \<and> z (heap st' 0) = 1
      \<and> w (heap st' 0) = pi)
   \<and> (\<exists>st'. Vector4_setAxisAngleFromRotationMatrix 0
        (rotation_matrix \<lparr>x = 0, y = 0, z = 1\<rparr> (pi / 2))
        \<lparr>heap = (\<lambda>_. Vector4_constructor 5 6 7 8), calls = []\<rparr> = Inr (Ref 0, st')
      \<and> x (heap st' 0) = 0 \<and> y (heap st' 0) = 0 \<and> z (heap st' 0) = 1
      \<and> w (heap st' 0) = pi / 2)"
proof -
  let ?W = "\<lparr>heap = (\<lambda>_. Vector4_constructor 5 6 7 8), calls = []\<rparr>"
  note ev = near_symmetric_def rotation_entries
  show ?thesis
    using
      setAxisAngleFromRotationMatrix_branches
        [where n = "\<lparr>x = 0, y = 0, z = 1\<rparr>" and ang = 0 and a = 0 and st = ?W]
      setAxisAngleFromRotationMatrix_branches
        [where n = "\<lparr>x = 1, y = 0, z = 0\<rparr>" and ang = pi and a = 0 and st = ?W]
      setAxisAngleFromRotationMatrix_branches
        [where n = "\<lparr>x = 0, y = 1, z = 0\<rparr>" and ang = pi and a = 0 and st = ?W]
      setAxisAngleFromRotationMatrix_branches
        [where n = "\<lparr>x = 0, y = 0, z = 1\<rparr>" and ang = pi and a = 0 and st = ?W]
      setAxisAngleFromRotationMatrix_branches
        [where n = "\<lparr>x = 0, y = 0, z = 1\<rparr>" and ang = "pi / 2" and a = 0 and st = ?W]
    by (simp add: ev) blast
qed


end
